theory Spec2Isabelle
  imports Complex_Main "HOL-Library.Monad_Syntax"
begin

section \<open>JavaScript values\<close>

text \<open>
  The handlers of \<^verbatim>\<open>server.js\<close> work on untyped JavaScript values: the fields of the
  parsed JSON body, the columns of a row, the value of a property that is absent
  (\<^verbatim>\<open>undefined\<close>). A number is a double; only its being zero or \<^verbatim>\<open>NaN\<close> is ever
  observed here, so a finite double is given by the rational it denotes.
\<close>

datatype jsnum = NaN | PosInf | NegInf | Fin rat

datatype jsval =
    JUndefined
  | JNull
  | JBool bool
  | JNum jsnum
  | JStr string
  | JArr "jsval list"
  | JObj "(string \<times> jsval) list"

text \<open>\<^verbatim>\<open>ToBoolean\<close>: what \<^verbatim>\<open>!x\<close>, \<^verbatim>\<open>x || y\<close> and \<^verbatim>\<open>if (x)\<close> test.\<close>

fun truthy :: "jsval \<Rightarrow> bool" where
  "truthy JUndefined = False"
| "truthy JNull = False"
| "truthy (JBool b) = b"
| "truthy (JNum n) = (n \<noteq> NaN \<and> n \<noteq> Fin 0)"
| "truthy (JStr s) = (s \<noteq> [])"
| "truthy (JArr xs) = True"
| "truthy (JObj kvs) = True"

text \<open>\<^verbatim>\<open>a || b\<close>\<close>

definition js_or :: "jsval \<Rightarrow> jsval \<Rightarrow> jsval" where
  "js_or a b = (if truthy a then a else b)"

text \<open>Reading a property of an object: \<^verbatim>\<open>undefined\<close> when the object has no such key.\<close>

definition getprop :: "(string \<times> jsval) list \<Rightarrow> string \<Rightarrow> jsval" where
  "getprop obj k = (case map_of obj k of None \<Rightarrow> JUndefined | Some v \<Rightarrow> v)"

section \<open>The relational store\<close>

text \<open>
  The three tables of \<^verbatim>\<open>src/createTables.js\<close>, each column with the type it is declared
  with. A column of a character type or of type \<^verbatim>\<open>NUMERIC\<close> holds a text, which is also
  how the driver hands it back to JavaScript (\<open>None\<close> is SQL \<^verbatim>\<open>NULL\<close>); \<open>items\<close>, of type
  \<^verbatim>\<open>JSON\<close>, holds the value that the driver hands back after parsing the stored text; the
  surrogate key is an integer drawn from the table's sequence and \<^verbatim>\<open>created_at\<close> is the
  time of the insertion in milliseconds.
\<close>

record pizza_row =
  pizza_id :: int
  pizza_name :: string
  pizza_price :: string
  pizza_image :: "string option"

record order_row =
  order_id :: int
  order_name :: "string option"
  order_phone :: "string option"
  order_address :: "string option"
  order_items :: jsval
  order_total :: "string option"
  payment_method :: "string option"
  payment_status :: "string option"
  transaction_id :: "string option"
  order_status :: "string option"
  order_created_at :: nat

record message_row =
  message_id :: int
  message_name :: "string option"
  message_email :: "string option"
  message_text :: "string option"
  message_created_at :: nat

record database =
  pizzas :: "pizza_row list"
  orders :: "order_row list"
  messages :: "message_row list"
  pizzas_id_seq :: int
  orders_id_seq :: int
  messages_id_seq :: int

text \<open>
  The statements that the handlers send through \<^verbatim>\<open>pool.query\<close>, one constructor for each
  SQL text, with its bound parameters in the order of the source, as the handler passes
  them. The id of a \<^verbatim>\<open>WHERE id=$n\<close> is \<^verbatim>\<open>req.params.id\<close>, the text of a path segment.
\<close>

datatype sql =
    SelectPizzas
  | InsertPizza jsval jsval jsval
  | DeletePizza string
  | SelectOrders
  | InsertOrder jsval jsval jsval jsval jsval jsval jsval
  | UpdatePaymentStatus jsval string
  | ConfirmPayment jsval string
  | DeleteOrder string
  | SelectMessages
  | InsertMessage jsval jsval jsval
  | DeleteMessage string

datatype rowset =
    NoRows
  | IdRows "int list"
  | PizzaRows "pizza_row list"
  | OrderRows "order_row list"
  | MessageRows "message_row list"

record pg_result =
  rows :: rowset
  rowCount :: nat

text \<open>
  What the sources call but do not define is a parameter of the model:
  \<^item> of the language, \<^verbatim>\<open>JSON.parse\<close> (\<open>None\<close>: it throws), \<^verbatim>\<open>JSON.stringify\<close>, \<^verbatim>\<open>Number\<close> and the
    text of a number (\<^verbatim>\<open>toString\<close>);
  \<^item> \<^verbatim>\<open>bcrypt.compare\<close> (\<open>None\<close>: the promise is rejected);
  \<^item> of the driver, the text it sends for an array;
  \<^item> of the engine, how it reads a text as an integer, as a \<^verbatim>\<open>NUMERIC\<close> (given back as the
    text that the driver returns for it) and as a \<^verbatim>\<open>JSON\<close> value (given back as the driver
    parses it), each with \<open>None\<close> for a text that it rejects;
  \<^item> which statements the store refuses for a reason outside the statement (no connection).
\<close>

record env =
  JSON_parse :: "string \<Rightarrow> jsval option"
  JSON_stringify :: "jsval \<Rightarrow> jsval"
  Number :: "jsval \<Rightarrow> jsval"
  Number_toString :: "jsnum \<Rightarrow> string"
  bcrypt_compare :: "jsval \<Rightarrow> string \<Rightarrow> bool option"
  pg_arrayString :: "jsval list \<Rightarrow> string"
  pg_int4 :: "string \<Rightarrow> int option"
  pg_numeric :: "string \<Rightarrow> string option"
  pg_json :: "string \<Rightarrow> jsval option"
  pg_fails :: "sql \<Rightarrow> bool"

text \<open>
  The driver sends every parameter as text (\<^verbatim>\<open>prepareValue\<close>): \<^verbatim>\<open>null\<close> and \<^verbatim>\<open>undefined\<close> as
  SQL \<^verbatim>\<open>NULL\<close>, a string as it is, a boolean and a number by \<^verbatim>\<open>toString\<close>, an array as an
  array literal, any other object by \<^verbatim>\<open>JSON.stringify\<close>.
\<close>

fun pg_prepare :: "env \<Rightarrow> jsval \<Rightarrow> string option" where
  "pg_prepare E JUndefined = None"
| "pg_prepare E JNull = None"
| "pg_prepare E (JBool b) = Some (if b then ''true'' else ''false'')"
| "pg_prepare E (JNum n) = Some (Number_toString E n)"
| "pg_prepare E (JStr s) = Some s"
| "pg_prepare E (JArr xs) = Some (pg_arrayString E xs)"
| "pg_prepare E (JObj kvs) = (case JSON_stringify E (JObj kvs) of JStr s \<Rightarrow> Some s | _ \<Rightarrow> None)"

text \<open>
  What the engine makes of a text that is assigned to a column (\<open>None\<close>: the statement
  fails). No text may hold the character of code 0. \<^verbatim>\<open>VARCHAR(n)\<close> takes up to \<open>n\<close>
  characters; a longer text is cut to \<open>n\<close> when only spaces are cut off and is an error
  otherwise.
\<close>

definition pg_text :: "string \<Rightarrow> string option" where
  "pg_text s = (if CHR 0x00 \<in> set s then None else Some s)"

definition pg_varchar :: "nat \<Rightarrow> string \<Rightarrow> string option" where
  "pg_varchar n s =
     (if CHR 0x00 \<in> set s then None
      else if length s \<le> n then Some s
      else if list_all (\<lambda>ch. ch = CHR '' '') (drop n s) then Some (take n s)
      else None)"

text \<open>
  A parameter assigned to a column that may be \<^verbatim>\<open>NULL\<close>, and to one declared
  \<^verbatim>\<open>NOT NULL\<close>: the outer \<open>None\<close> is the failure of the statement.
\<close>

fun nullable :: "(string \<Rightarrow> 'a option) \<Rightarrow> string option \<Rightarrow> 'a option option" where
  "nullable f None = Some None"
| "nullable f (Some s) = (case f s of None \<Rightarrow> None | Some x \<Rightarrow> Some (Some x))"

fun not_null :: "(string \<Rightarrow> 'a option) \<Rightarrow> string option \<Rightarrow> 'a option" where
  "not_null f None = None"
| "not_null f (Some s) = f s"

text \<open>The driver returns the \<^verbatim>\<open>NULL\<close> of a \<^verbatim>\<open>JSON\<close> column as \<^verbatim>\<open>null\<close>.\<close>

fun json_column :: "jsval option \<Rightarrow> jsval" where
  "json_column None = JNull"
| "json_column (Some v) = v"

text \<open>
  One statement against the tables at time \<open>t\<close>: \<open>None\<close> when the store throws, otherwise
  the result and the new tables. A parameter that the engine cannot read for its column
  fails the statement whether or not a row matches.
\<close>

fun exec_sql :: "env \<Rightarrow> nat \<Rightarrow> sql \<Rightarrow> database \<Rightarrow> (pg_result \<times> database) option" where
  "exec_sql E t SelectPizzas d =
     Some (\<lparr>rows = PizzaRows (sort_key pizza_id (pizzas d)), rowCount = length (pizzas d)\<rparr>, d)"
| "exec_sql E t (InsertPizza n p i) d =
     do {
       n' \<leftarrow> not_null (pg_varchar 100) (pg_prepare E n);
       p' \<leftarrow> not_null (pg_numeric E) (pg_prepare E p);
       i' \<leftarrow> nullable pg_text (pg_prepare E i);
       Some (\<lparr>rows = NoRows, rowCount = 1\<rparr>,
         d\<lparr>pizzas := pizzas d @
              [\<lparr>pizza_id = pizzas_id_seq d, pizza_name = n', pizza_price = p', pizza_image = i'\<rparr>],
           pizzas_id_seq := pizzas_id_seq d + 1\<rparr>)
     }"
| "exec_sql E t (DeletePizza txt) d =
     do {
       k \<leftarrow> pg_int4 E txt;
       Some (\<lparr>rows = NoRows, rowCount = length (filter (\<lambda>r. pizza_id r = k) (pizzas d))\<rparr>,
         d\<lparr>pizzas := filter (\<lambda>r. pizza_id r \<noteq> k) (pizzas d)\<rparr>)
     }"
| "exec_sql E t SelectOrders d =
     Some (\<lparr>rows = OrderRows (rev (sort_key order_created_at (orders d))),
            rowCount = length (orders d)\<rparr>, d)"
| "exec_sql E t (InsertOrder n ph a its tot pm ps) d =
     do {
       n' \<leftarrow> nullable (pg_varchar 100) (pg_prepare E n);
       ph' \<leftarrow> nullable (pg_varchar 20) (pg_prepare E ph);
       a' \<leftarrow> nullable pg_text (pg_prepare E a);
       its' \<leftarrow> nullable (pg_json E) (pg_prepare E its);
       tot' \<leftarrow> nullable (pg_numeric E) (pg_prepare E tot);
       pm' \<leftarrow> nullable (pg_varchar 50) (pg_prepare E pm);
       ps' \<leftarrow> nullable (pg_varchar 20) (pg_prepare E ps);
       Some (\<lparr>rows = IdRows [orders_id_seq d], rowCount = 1\<rparr>,
         d\<lparr>orders := orders d @
              [\<lparr>order_id = orders_id_seq d, order_name = n', order_phone = ph',
                order_address = a', order_items = json_column its', order_total = tot',
                payment_method = pm', payment_status = ps', transaction_id = None,
                order_status = None, order_created_at = t\<rparr>],
           orders_id_seq := orders_id_seq d + 1\<rparr>)
     }"
| "exec_sql E t (UpdatePaymentStatus ps txt) d =
     do {
       ps' \<leftarrow> nullable (pg_varchar 20) (pg_prepare E ps);
       k \<leftarrow> pg_int4 E txt;
       Some (\<lparr>rows = NoRows, rowCount = length (filter (\<lambda>r. order_id r = k) (orders d))\<rparr>,
         d\<lparr>orders := map (\<lambda>r. if order_id r = k then r\<lparr>payment_status := ps'\<rparr> else r)
                         (orders d)\<rparr>)
     }"
| "exec_sql E t (ConfirmPayment tx txt) d =
     do {
       tx' \<leftarrow> nullable (pg_varchar 100) (pg_prepare E tx);
       k \<leftarrow> pg_int4 E txt;
       Some (\<lparr>rows = NoRows, rowCount = length (filter (\<lambda>r. order_id r = k) (orders d))\<rparr>,
         d\<lparr>orders := map (\<lambda>r. if order_id r = k
                                then r\<lparr>transaction_id := tx', payment_status := Some ''Paid''\<rparr>
                                else r)
                         (orders d)\<rparr>)
     }"
| "exec_sql E t (DeleteOrder txt) d =
     do {
       k \<leftarrow> pg_int4 E txt;
       Some (\<lparr>rows = NoRows, rowCount = length (filter (\<lambda>r. order_id r = k) (orders d))\<rparr>,
         d\<lparr>orders := filter (\<lambda>r. order_id r \<noteq> k) (orders d)\<rparr>)
     }"
| "exec_sql E t SelectMessages d =
     Some (\<lparr>rows = MessageRows (rev (sort_key message_created_at (messages d))),
            rowCount = length (messages d)\<rparr>, d)"
| "exec_sql E t (InsertMessage n e m) d =
     do {
       n' \<leftarrow> nullable (pg_varchar 100) (pg_prepare E n);
       e' \<leftarrow> nullable (pg_varchar 100) (pg_prepare E e);
       m' \<leftarrow> nullable pg_text (pg_prepare E m);
       Some (\<lparr>rows = NoRows, rowCount = 1\<rparr>,
         d\<lparr>messages := messages d @
              [\<lparr>message_id = messages_id_seq d, message_name = n', message_email = e',
                message_text = m', message_created_at = t\<rparr>],
           messages_id_seq := messages_id_seq d + 1\<rparr>)
     }"
| "exec_sql E t (DeleteMessage txt) d =
     do {
       k \<leftarrow> pg_int4 E txt;
       Some (\<lparr>rows = NoRows, rowCount = length (filter (\<lambda>r. message_id r = k) (messages d))\<rparr>,
         d\<lparr>messages := filter (\<lambda>r. message_id r \<noteq> k) (messages d)\<rparr>)
     }"

section \<open>Requests, sessions and responses\<close>

text \<open>
  \<^verbatim>\<open>req.session\<close> carries one property of the program's own, \<^verbatim>\<open>admin\<close>, which is absent
  until the login handler assigns \<^verbatim>\<open>true\<close> to it.
\<close>

record session =
  admin :: "bool option"

record request =
  body :: "(string \<times> jsval) list"
  params_id :: string

datatype event = Guard | Query sql

text \<open>
  What a handler reads and changes besides its request: the tables, \<^verbatim>\<open>req.session\<close>
  (\<open>None\<close>: no session object), the clock, and the log of what has happened so far (a run
  of the guard, a statement sent to the store), oldest first.
\<close>

record ctx =
  db :: database
  session :: "session option"
  now :: nat
  trace :: "event list"

datatype resp_body =
    Json jsval
  | Pizzas "pizza_row list"
  | Orders "order_row list"
  | Messages "message_row list"
  | ErrorPage

record response =
  status :: nat
  json :: resp_body
  clearCookie :: "string option"

text \<open>\<^verbatim>\<open>res.status(n).json(b)\<close>, and \<^verbatim>\<open>res.json(b)\<close> with the default status 200.\<close>

definition res_status_json :: "nat \<Rightarrow> resp_body \<Rightarrow> response" where
  "res_status_json n b = \<lparr>status = n, json = b, clearCookie = None\<rparr>"

definition res_json :: "resp_body \<Rightarrow> response" where
  "res_json b = res_status_json 200 b"

text \<open>
  \<^verbatim>\<open>await pool.query(text, params)\<close>: the statement is logged, then it either throws and
  leaves the tables alone, or runs.
\<close>

definition pool_query :: "env \<Rightarrow> sql \<Rightarrow> ctx \<Rightarrow> pg_result option \<times> ctx" where
  "pool_query E q c =
     (let c' = c\<lparr>trace := trace c @ [Query q]\<rparr>
      in if pg_fails E q then (None, c')
         else (case exec_sql E (now c) q (db c) of
                 None \<Rightarrow> (None, c')
               | Some (r, d') \<Rightarrow> (Some r, c'\<lparr>db := d'\<rparr>)))"

section \<open>The handlers of server.js\<close>

subsection \<open>Orders\<close>

text \<open>\<^verbatim>\<open>app.post("/api/orders", ...)\<close>, lines 191 to 224.\<close>

definition post_orders :: "env \<Rightarrow> request \<Rightarrow> ctx \<Rightarrow> response \<times> ctx" where
  "post_orders E req c =
     (let name = getprop (body req) ''name'';
          phone = getprop (body req) ''phone'';
          address = getprop (body req) ''address'';
          items = getprop (body req) ''items'';
          total = getprop (body req) ''total'';
          paymentMethod = getprop (body req) ''paymentMethod'';
          payment_method = js_or paymentMethod (JStr ''COD'');
          payment_status = (if payment_method = JStr ''COD'' then JStr ''Paid'' else JStr ''Pending'')
      in case pool_query E
                (InsertOrder name phone address (JSON_stringify E items) total
                   payment_method payment_status) c of
           (Some r, c') \<Rightarrow>
             (case rows r of
                IdRows (i # others) \<Rightarrow>
                  (res_json (Json (JObj
                     [(''orderId'', JNum (Fin (of_int i))),
                      (''paymentRequired'', JBool (payment_method \<noteq> JStr ''COD''))])), c')
              | _ \<Rightarrow> (res_status_json 500 (Json (JObj [(''success'', JBool False)])), c'))
         | (None, c') \<Rightarrow> (res_status_json 500 (Json (JObj [(''success'', JBool False)])), c'))"

text \<open>\<^verbatim>\<open>app.get("/api/orders", adminAuth, ...)\<close>, lines 170 to 189: the mapping of one row.\<close>

definition fix_items :: "env \<Rightarrow> order_row \<Rightarrow> order_row option" where
  "fix_items E row =
     (case order_items row of
        JStr s \<Rightarrow> (case JSON_parse E s of
                    None \<Rightarrow> None
                  | Some v \<Rightarrow> Some (row\<lparr>order_items := v\<rparr>))
      | v \<Rightarrow> Some (row\<lparr>order_items := v\<rparr>))"

text \<open>\<^verbatim>\<open>rows.map(...)\<close>, left to right; a \<^verbatim>\<open>JSON.parse\<close> that throws ends it.\<close>

fun map_rows :: "('a \<Rightarrow> 'b option) \<Rightarrow> 'a list \<Rightarrow> 'b list option" where
  "map_rows f [] = Some []"
| "map_rows f (x # xs) =
     (case f x of
        None \<Rightarrow> None
      | Some y \<Rightarrow> (case map_rows f xs of None \<Rightarrow> None | Some ys \<Rightarrow> Some (y # ys)))"

definition get_orders :: "env \<Rightarrow> request \<Rightarrow> ctx \<Rightarrow> response \<times> ctx" where
  "get_orders E req c =
     (case pool_query E SelectOrders c of
        (Some r, c') \<Rightarrow>
          (case rows r of
             OrderRows os \<Rightarrow>
               (case map_rows (fix_items E) os of
                  Some fixed \<Rightarrow> (res_json (Orders fixed), c')
                | None \<Rightarrow> (res_status_json 500 (Json (JArr [])), c'))
           | _ \<Rightarrow> (res_status_json 500 (Json (JArr [])), c'))
      | (None, c') \<Rightarrow> (res_status_json 500 (Json (JArr [])), c'))"

text \<open>\<^verbatim>\<open>app.patch("/api/orders/:id", adminAuth, ...)\<close>, lines 226 to 240.\<close>

definition patch_orders :: "env \<Rightarrow> request \<Rightarrow> ctx \<Rightarrow> response \<times> ctx" where
  "patch_orders E req c =
     (let payment_status = getprop (body req) ''payment_status''
      in case pool_query E (UpdatePaymentStatus payment_status (params_id req)) c of
           (Some r, c') \<Rightarrow> (res_json (Json (JObj [(''success'', JBool True)])), c')
         | (None, c') \<Rightarrow> (res_status_json 500 (Json (JObj [(''success'', JBool False)])), c'))"

text \<open>\<^verbatim>\<open>app.delete("/api/orders/:id", adminAuth, ...)\<close>, lines 242 to 252.\<close>

definition delete_orders :: "env \<Rightarrow> request \<Rightarrow> ctx \<Rightarrow> response \<times> ctx" where
  "delete_orders E req c =
     (case pool_query E (DeleteOrder (params_id req)) c of
        (Some r, c') \<Rightarrow> (res_json (Json (JObj [(''success'', JBool True)])), c')
      | (None, c') \<Rightarrow> (res_status_json 500 (Json (JObj [(''success'', JBool False)])), c'))"

subsection \<open>Pizzas\<close>

text \<open>\<^verbatim>\<open>app.get("/api/pizzas", ...)\<close>, lines 125 to 135.\<close>

definition get_pizzas :: "env \<Rightarrow> request \<Rightarrow> ctx \<Rightarrow> response \<times> ctx" where
  "get_pizzas E req c =
     (case pool_query E SelectPizzas c of
        (Some r, c') \<Rightarrow>
          (case rows r of
             PizzaRows ps \<Rightarrow> (res_json (Pizzas ps), c')
           | _ \<Rightarrow> (res_status_json 500 (Json (JArr [])), c'))
      | (None, c') \<Rightarrow> (res_status_json 500 (Json (JArr [])), c'))"

text \<open>\<^verbatim>\<open>app.post("/api/pizzas", adminAuth, ...)\<close>, lines 137 to 155.\<close>

definition post_pizzas :: "env \<Rightarrow> request \<Rightarrow> ctx \<Rightarrow> response \<times> ctx" where
  "post_pizzas E req c =
     (let name = getprop (body req) ''name'';
          price = getprop (body req) ''price'';
          image = getprop (body req) ''image''
      in if \<not> truthy name \<or> \<not> truthy price \<or> \<not> truthy image
         then (res_status_json 400 (Json (JObj [(''error'', JStr ''Missing fields'')])), c)
         else (case pool_query E (InsertPizza name (Number E price) image) c of
                 (Some r, c') \<Rightarrow> (res_json (Json (JObj [(''success'', JBool True)])), c')
               | (None, c') \<Rightarrow>
                   (res_status_json 500 (Json (JObj [(''error'', JStr ''Failed to add pizza'')])), c')))"

text \<open>\<^verbatim>\<open>app.delete("/api/pizzas/:id", adminAuth, ...)\<close>, lines 157 to 167.\<close>

definition delete_pizzas :: "env \<Rightarrow> request \<Rightarrow> ctx \<Rightarrow> response \<times> ctx" where
  "delete_pizzas E req c =
     (case pool_query E (DeletePizza (params_id req)) c of
        (Some r, c') \<Rightarrow> (res_json (Json (JObj [(''success'', JBool True)])), c')
      | (None, c') \<Rightarrow> (res_status_json 500 (Json (JObj [(''success'', JBool False)])), c'))"

subsection \<open>Messages\<close>

text \<open>\<^verbatim>\<open>app.get("/api/messages", adminAuth, ...)\<close>, lines 255 to 265.\<close>

definition get_messages :: "env \<Rightarrow> request \<Rightarrow> ctx \<Rightarrow> response \<times> ctx" where
  "get_messages E req c =
     (case pool_query E SelectMessages c of
        (Some r, c') \<Rightarrow>
          (case rows r of
             MessageRows ms \<Rightarrow> (res_json (Messages ms), c')
           | _ \<Rightarrow> (res_status_json 500 (Json (JArr [])), c'))
      | (None, c') \<Rightarrow> (res_status_json 500 (Json (JArr [])), c'))"

text \<open>\<^verbatim>\<open>app.post("/api/messages", ...)\<close>, lines 267 to 281.\<close>

definition post_messages :: "env \<Rightarrow> request \<Rightarrow> ctx \<Rightarrow> response \<times> ctx" where
  "post_messages E req c =
     (let name = getprop (body req) ''name'';
          email = getprop (body req) ''email'';
          message = getprop (body req) ''message''
      in case pool_query E (InsertMessage name email message) c of
           (Some r, c') \<Rightarrow> (res_json (Json (JObj [(''success'', JBool True)])), c')
         | (None, c') \<Rightarrow> (res_status_json 500 (Json (JObj [(''success'', JBool False)])), c'))"

text \<open>\<^verbatim>\<open>app.get("/health", ...)\<close>, lines 284 to 286.\<close>

definition get_health :: "env \<Rightarrow> request \<Rightarrow> ctx \<Rightarrow> response \<times> ctx" where
  "get_health E req c = (res_json (Json (JObj [(''status'', JStr ''ok'')])), c)"

subsection \<open>The administrator: guard, login, logout\<close>

record admin_user =
  username :: string
  passwordHash :: string

definition adminUser :: admin_user where
  "adminUser =
     \<lparr>username = ''Owner'',
      passwordHash = ''$2a$10$Yk.2KdOdPUENankA9Y.p8.oRkqAO0vQfJB.msmQG4Fh.tLopedroW''\<rparr>"

text \<open>
  \<^verbatim>\<open>function adminAuth(req, res, next)\<close>, lines 76 to 81. \<open>None\<close> is the call of
  \<^verbatim>\<open>next()\<close>; a response ends the chain.
\<close>

definition adminAuth :: "env \<Rightarrow> request \<Rightarrow> ctx \<Rightarrow> response option \<times> ctx" where
  "adminAuth E req c =
     (let c' = c\<lparr>trace := trace c @ [Guard]\<rparr>
      in case session c of
           None \<Rightarrow> (Some (res_status_json 401 (Json (JObj [(''error'', JStr ''Unauthorized'')]))), c')
         | Some s \<Rightarrow>
             if admin s = Some True then (None, c')
             else (Some (res_status_json 401 (Json (JObj [(''error'', JStr ''Unauthorized'')]))), c'))"

text \<open>\<^verbatim>\<open>app.post("/admin/login", ...)\<close>, lines 84 to 108.\<close>

definition post_admin_login :: "env \<Rightarrow> request \<Rightarrow> ctx \<Rightarrow> response \<times> ctx" where
  "post_admin_login E req c =
     (let usern = getprop (body req) ''username'';
          password = getprop (body req) ''password''
      in if usern \<noteq> JStr (username adminUser)
         then (res_status_json 401 (Json (JObj [(''success'', JBool False)])), c)
         else (case bcrypt_compare E password (passwordHash adminUser) of
                 None \<Rightarrow> (res_status_json 500 (Json (JObj [(''success'', JBool False)])), c)
               | Some match \<Rightarrow>
                   if \<not> match
                   then (res_status_json 401 (Json (JObj [(''success'', JBool False)])), c)
                   else (case session c of
                           None \<Rightarrow>
                             (res_status_json 500 (Json (JObj [(''success'', JBool False)])), c)
                         | Some s \<Rightarrow>
                             (res_json (Json (JObj [(''success'', JBool True)])),
                              c\<lparr>session := Some (s\<lparr>admin := Some True\<rparr>)\<rparr>))))"

text \<open>
  \<^verbatim>\<open>app.post("/admin/logout", ...)\<close>, lines 111 to 122. Without a session object the call of
  \<^verbatim>\<open>destroy\<close> throws outside any \<^verbatim>\<open>try\<close>, which the framework answers with its error page.
\<close>

definition post_admin_logout :: "env \<Rightarrow> request \<Rightarrow> ctx \<Rightarrow> response \<times> ctx" where
  "post_admin_logout E req c =
     (case session c of
        None \<Rightarrow> (\<lparr>status = 500, json = ErrorPage, clearCookie = None\<rparr>, c)
      | Some s \<Rightarrow>
          (\<lparr>status = 200, json = Json (JObj [(''success'', JBool True)]),
            clearCookie = Some ''pizza.sid''\<rparr>,
           c\<lparr>session := None\<rparr>))"

subsection \<open>Route registrations\<close>

text \<open>
  \<^verbatim>\<open>app.METHOD(path, f, g)\<close> registers the chain \<open>[f, g]\<close>: each function either answers,
  which ends the request, or calls \<^verbatim>\<open>next()\<close>, which runs the one after it. A chain that
  runs out without an answer falls through to the framework's 404.
\<close>

type_synonym handler = "env \<Rightarrow> request \<Rightarrow> ctx \<Rightarrow> response \<times> ctx"

type_synonym middleware = "env \<Rightarrow> request \<Rightarrow> ctx \<Rightarrow> response option \<times> ctx"

definition final :: "handler \<Rightarrow> middleware" where
  "final h E req c = (case h E req c of (r, c') \<Rightarrow> (Some r, c'))"

fun run_chain :: "middleware list \<Rightarrow> env \<Rightarrow> request \<Rightarrow> ctx \<Rightarrow> response \<times> ctx" where
  "run_chain [] E req c = (\<lparr>status = 404, json = ErrorPage, clearCookie = None\<rparr>, c)"
| "run_chain (m # ms) E req c =
     (case m E req c of
        (Some r, c') \<Rightarrow> (r, c')
      | (None, c') \<Rightarrow> run_chain ms E req c')"

datatype route =
    PostAdminLogin
  | PostAdminLogout
  | GetPizzas
  | PostPizzas
  | DeletePizzasId
  | GetOrders
  | PostOrders
  | PatchOrdersId
  | DeleteOrdersId
  | GetMessages
  | PostMessages
  | GetHealth

fun app_route :: "route \<Rightarrow> middleware list" where
  "app_route PostAdminLogin = [final post_admin_login]"
| "app_route PostAdminLogout = [final post_admin_logout]"
| "app_route GetPizzas = [final get_pizzas]"
| "app_route PostPizzas = [adminAuth, final post_pizzas]"
| "app_route DeletePizzasId = [adminAuth, final delete_pizzas]"
| "app_route GetOrders = [adminAuth, final get_orders]"
| "app_route PostOrders = [final post_orders]"
| "app_route PatchOrdersId = [adminAuth, final patch_orders]"
| "app_route DeleteOrdersId = [adminAuth, final delete_orders]"
| "app_route GetMessages = [adminAuth, final get_messages]"
| "app_route PostMessages = [final post_messages]"
| "app_route GetHealth = [final get_health]"

definition dispatch :: "env \<Rightarrow> route \<Rightarrow> request \<Rightarrow> ctx \<Rightarrow> response \<times> ctx" where
  "dispatch E r req c = run_chain (app_route r) E req c"

text \<open>What a request added to the log.\<close>

definition events :: "ctx \<Rightarrow> ctx \<Rightarrow> event list" where
  "events c c' = drop (length (trace c)) (trace c')"

subsection \<open>Sessions\<close>

text \<open>
  Modelled from the spec: the session store and the lookup that fills \<^verbatim>\<open>req.session\<close>
  before any route runs (the session middleware is a library, not in the sources). The
  store maps the session id of the cookie to a record with an expiry; a request with no
  cookie, an unknown id or an expired record gets a fresh session, which has no
  \<^verbatim>\<open>admin\<close> property.
\<close>

record stored_session =
  expires :: nat
  data :: session

type_synonym session_store = "string \<rightharpoonup> stored_session"

definition new_session :: session where
  "new_session = \<lparr>admin = None\<rparr>"

definition load_session :: "session_store \<Rightarrow> nat \<Rightarrow> string option \<Rightarrow> session" where
  "load_session S t cookie =
     (case cookie of
        None \<Rightarrow> new_session
      | Some sid \<Rightarrow>
          (case S sid of
             None \<Rightarrow> new_session
           | Some e \<Rightarrow> if expires e \<le> t then new_session else data e))"

text \<open>One request against the application: the session is looked up, then the route runs.\<close>

definition serve ::
  "env \<Rightarrow> session_store \<Rightarrow> database \<Rightarrow> nat \<Rightarrow> string option \<Rightarrow> route \<Rightarrow> request \<Rightarrow> response \<times> ctx" where
  "serve E S d t cookie r req =
     dispatch E r req \<lparr>db = d, session = Some (load_session S t cookie), now = t, trace = []\<rparr>"

section \<open>The variants of server.js in unnamed/part\_000\<close>

text \<open>
  \<^verbatim>\<open>part_000\<close> holds three more versions of \<^verbatim>\<open>server.js\<close>: the first at lines 60 to 265,
  the second at lines 266 to 476, the third at lines 477 to 722. The handlers below are
  the ones that differ from \<^verbatim>\<open>src/server.js\<close> in what the properties of this theory are
  about.
\<close>


text \<open>
  Second version, lines 314 to 317: the guard reads \<^verbatim>\<open>req.session.admin\<close> with no test of
  \<^verbatim>\<open>req.session\<close>, so without a session object it throws.
\<close>

definition adminAuth_v2 :: "env \<Rightarrow> request \<Rightarrow> ctx \<Rightarrow> response option \<times> ctx" where
  "adminAuth_v2 E req c =
     (let c' = c\<lparr>trace := trace c @ [Guard]\<rparr>
      in case session c of
           None \<Rightarrow> (Some \<lparr>status = 500, json = ErrorPage, clearCookie = None\<rparr>, c')
         | Some s \<Rightarrow>
             if admin s = Some True then (None, c')
             else (Some (res_status_json 401 (Json (JObj [(''success'', JBool False)]))), c'))"

text \<open>Second version, lines 405 to 418. The default of the destructuring applies to
  \<^verbatim>\<open>undefined\<close> only.\<close>

definition confirm_payment :: "env \<Rightarrow> request \<Rightarrow> ctx \<Rightarrow> response \<times> ctx" where
  "confirm_payment E req c =
     (let transactionId =
            (if getprop (body req) ''transactionId'' = JUndefined then JStr ''N/A''
             else getprop (body req) ''transactionId'')
      in case pool_query E (ConfirmPayment transactionId (params_id req)) c of
           (Some r, c') \<Rightarrow>
             if rowCount r = 0
             then (res_status_json 404 (Json (JObj [(''success'', JBool False)])), c')
             else (res_json (Json (JObj [(''success'', JBool True)])), c')
         | (None, c') \<Rightarrow>
             (res_status_json 500 (Json (JObj [(''error'', JStr ''Database error'')])), c'))"

text \<open>Second version, lines 443 to 472: the message routes.\<close>

definition get_messages_v2 :: "env \<Rightarrow> request \<Rightarrow> ctx \<Rightarrow> response \<times> ctx" where
  "get_messages_v2 E req c =
     (case pool_query E SelectMessages c of
        (Some r, c') \<Rightarrow>
          (case rows r of
             MessageRows ms \<Rightarrow> (res_json (Messages ms), c')
           | _ \<Rightarrow> (res_status_json 500 (Json (JObj [(''error'', JStr ''Database error'')])), c'))
      | (None, c') \<Rightarrow>
          (res_status_json 500 (Json (JObj [(''error'', JStr ''Database error'')])), c'))"

definition post_messages_v2 :: "env \<Rightarrow> request \<Rightarrow> ctx \<Rightarrow> response \<times> ctx" where
  "post_messages_v2 E req c =
     (let name = getprop (body req) ''name'';
          email = getprop (body req) ''email'';
          message = getprop (body req) ''message''
      in case pool_query E (InsertMessage name email message) c of
           (Some r, c') \<Rightarrow> (res_json (Json (JObj [(''message'', JStr ''Saved'')])), c')
         | (None, c') \<Rightarrow>
             (res_status_json 500 (Json (JObj [(''error'', JStr ''Database error'')])), c'))"

definition delete_messages_v2 :: "env \<Rightarrow> request \<Rightarrow> ctx \<Rightarrow> response \<times> ctx" where
  "delete_messages_v2 E req c =
     (case pool_query E (DeleteMessage (params_id req)) c of
        (Some r, c') \<Rightarrow> (res_json (Json (JObj [(''message'', JStr ''Deleted'')])), c')
      | (None, c') \<Rightarrow>
          (res_status_json 500 (Json (JObj [(''error'', JStr ''Database error'')])), c'))"

datatype route_v2 =
    PostConfirmPaymentId
  | GetMessagesV2
  | PostMessagesV2
  | DeleteMessagesIdV2

fun app_route_v2 :: "route_v2 \<Rightarrow> middleware list" where
  "app_route_v2 PostConfirmPaymentId = [final confirm_payment]"
| "app_route_v2 GetMessagesV2 = [adminAuth_v2, final get_messages_v2]"
| "app_route_v2 PostMessagesV2 = [final post_messages_v2]"
| "app_route_v2 DeleteMessagesIdV2 = [adminAuth_v2, final delete_messages_v2]"

definition dispatch_v2 :: "env \<Rightarrow> route_v2 \<Rightarrow> request \<Rightarrow> ctx \<Rightarrow> response \<times> ctx" where
  "dispatch_v2 E r req c = run_chain (app_route_v2 r) E req c"

text \<open>Third version, lines 707 to 715, behind the guard of lines 541 to 544.\<close>

definition adminAuth_v3 :: "env \<Rightarrow> request \<Rightarrow> ctx \<Rightarrow> response option \<times> ctx" where
  "adminAuth_v3 E req c =
     (let c' = c\<lparr>trace := trace c @ [Guard]\<rparr>
      in case session c of
           None \<Rightarrow> (Some \<lparr>status = 500, json = ErrorPage, clearCookie = None\<rparr>, c')
         | Some s \<Rightarrow>
             if admin s = Some True then (None, c')
             else (Some (res_status_json 401 (Json (JObj [(''error'', JStr ''Unauthorized'')]))), c'))"

definition delete_messages_v3 :: "env \<Rightarrow> request \<Rightarrow> ctx \<Rightarrow> response \<times> ctx" where
  "delete_messages_v3 E req c =
     (case pool_query E (DeleteMessage (params_id req)) c of
        (Some r, c') \<Rightarrow> (res_json (Json (JObj [(''success'', JBool True)])), c')
      | (None, c') \<Rightarrow> (res_status_json 500 (Json (JObj [(''success'', JBool False)])), c'))"

definition delete_messages_route_v3 :: "middleware list" where
  "delete_messages_route_v3 = [adminAuth_v3, final delete_messages_v3]"

section \<open>Notions that the properties are stated with\<close>

text \<open>The session of the request is the administrator's.\<close>

definition is_admin :: "ctx \<Rightarrow> bool" where
  "is_admin c = (case session c of None \<Rightarrow> False | Some s \<Rightarrow> admin s = Some True)"

text \<open>
  The routes of \<^verbatim>\<open>src/server.js\<close> that the specification calls privileged (catalog create
  and delete; order list, update and delete; message list) and public (catalog list,
  order create, message create), and the same for the message routes of the second
  version in \<^verbatim>\<open>part_000\<close>, which has the message delete.
\<close>

fun privileged :: "route \<Rightarrow> bool" where
  "privileged PostPizzas = True"
| "privileged DeletePizzasId = True"
| "privileged GetOrders = True"
| "privileged PatchOrdersId = True"
| "privileged DeleteOrdersId = True"
| "privileged GetMessages = True"
| "privileged r = False"

fun public_route :: "route \<Rightarrow> bool" where
  "public_route GetPizzas = True"
| "public_route PostOrders = True"
| "public_route PostMessages = True"
| "public_route r = False"

fun privileged_v2 :: "route_v2 \<Rightarrow> bool" where
  "privileged_v2 GetMessagesV2 = True"
| "privileged_v2 DeleteMessagesIdV2 = True"
| "privileged_v2 r = False"

fun public_route_v2 :: "route_v2 \<Rightarrow> bool" where
  "public_route_v2 PostMessagesV2 = True"
| "public_route_v2 r = False"

text \<open>
  The id of the path matches no row: the engine reads it as an integer that is the key of
  none of the rows, or does not read it as an integer at all.
\<close>

definition id_matches_none :: "env \<Rightarrow> string \<Rightarrow> int list \<Rightarrow> bool" where
  "id_matches_none E txt ids = (case pg_int4 E txt of None \<Rightarrow> True | Some k \<Rightarrow> k \<notin> set ids)"

text \<open>The store runs the statement: it is up, and the engine can read every parameter.\<close>

definition store_accepts :: "env \<Rightarrow> sql \<Rightarrow> ctx \<Rightarrow> bool" where
  "store_accepts E q c = (\<not> pg_fails E q \<and> exec_sql E (now c) q (db c) \<noteq> None)"

section \<open>A concrete environment and state for the examples\<close>

text \<open>
  The examples run in an environment whose functions agree with the real ones on the
  arguments that the examples use: the JSON texts \<^verbatim>\<open>[]\<close> and \<^verbatim>\<open>"[]"\<close>, the numbers 9 and
  20, an id written in decimal digits, a password that is not a string. The store of
  this environment is always up.
\<close>

fun digits :: "string \<Rightarrow> int \<Rightarrow> int option" where
  "digits [] acc = Some acc"
| "digits (ch # cs) acc =
     (let n = (of_char ch :: nat)
      in if 48 \<le> n \<and> n \<le> 57 then digits cs (10 * acc + (int n - 48)) else None)"

definition decimal :: "string \<Rightarrow> int option" where
  "decimal s =
     (if s = [] then None
      else case digits s 0 of
             None \<Rightarrow> None
           | Some v \<Rightarrow> if v \<le> 2147483647 then Some v else None)"

definition quoted :: "string \<Rightarrow> string" where
  "quoted s = CHR 0x22 # s @ [CHR 0x22]"

definition test_env :: env where
  "test_env =
     \<lparr>JSON_parse = (\<lambda>s. if s = ''[]'' then Some (JArr [])
                         else if s = quoted ''[]'' then Some (JStr ''[]'') else None),
      JSON_stringify = (\<lambda>v. if v = JArr [] then JStr ''[]'' else JUndefined),
      Number = (\<lambda>v. v),
      Number_toString = (\<lambda>n. if n = Fin 9 then ''9'' else if n = Fin 20 then ''20'' else ''NaN''),
      bcrypt_compare = (\<lambda>p h. case p of JStr s \<Rightarrow> Some (s = ''Owner123'') | _ \<Rightarrow> None),
      pg_arrayString = (\<lambda>xs. ''{}''),
      pg_int4 = decimal,
      pg_numeric = (\<lambda>s. if s = ''9'' \<or> s = ''20'' then Some s else None),
      pg_json = (\<lambda>s. if s = ''[]'' then Some (JArr []) else None),
      pg_fails = (\<lambda>q. False)\<rparr>"

definition empty_db :: database where
  "empty_db =
     \<lparr>pizzas = [], orders = [], messages = [],
      pizzas_id_seq = 1, orders_id_seq = 1, messages_id_seq = 1\<rparr>"

definition visitor_ctx :: ctx where
  "visitor_ctx = \<lparr>db = empty_db, session = Some new_session, now = 1000, trace = []\<rparr>"

definition admin_ctx :: ctx where
  "admin_ctx = \<lparr>db = empty_db, session = Some \<lparr>admin = Some True\<rparr>, now = 1000, trace = []\<rparr>"

text \<open>
  An order as the store holds it, with an empty list of items, and a state of the
  administrator's with given orders.
\<close>

definition sample_order :: "int \<Rightarrow> string \<Rightarrow> string \<Rightarrow> order_row" where
  "sample_order i pm ps =
     \<lparr>order_id = i, order_name = Some ''A'', order_phone = Some ''1'', order_address = Some ''x'',
      order_items = JArr [], order_total = Some ''20'', payment_method = Some pm,
      payment_status = Some ps, transaction_id = None, order_status = None,
      order_created_at = 500\<rparr>"

definition orders_ctx :: "order_row list \<Rightarrow> ctx" where
  "orders_ctx os =
     admin_ctx\<lparr>db := empty_db\<lparr>orders := os, orders_id_seq := 1 + int (length os)\<rparr>\<rparr>"

section \<open>Properties\<close>

text \<open>The definitions that evaluating a handler unfolds.\<close>

lemmas handler_simps = pool_query_def Let_def js_or_def res_json_def res_status_json_def getprop_def
  events_def pg_varchar_def pg_text_def store_accepts_def

subsection \<open>What a statement does\<close>

lemma pool_query_accepts:
  "store_accepts E q c \<Longrightarrow>
   \<exists>r d'. exec_sql E (now c) q (db c) = Some (r, d') \<and>
          pool_query E q c = (Some r, c\<lparr>trace := trace c @ [Query q], db := d'\<rparr>)"
  by (auto simp add: store_accepts_def pool_query_def Let_def)

lemma pool_query_refuses:
  "\<not> store_accepts E q c \<Longrightarrow> pool_query E q c = (None, c\<lparr>trace := trace c @ [Query q]\<rparr>)"
  by (cases "exec_sql E (now c) q (db c)") (auto simp add: store_accepts_def pool_query_def Let_def)


subsection \<open>Creating an order\<close>

text \<open>
  C1, as amended. When \<^verbatim>\<open>POST /api/orders\<close> answers with success: if \<^verbatim>\<open>paymentMethod\<close> is
  \<^verbatim>\<open>"COD"\<close>, one order has been added, its \<open>payment_status\<close> is \<^verbatim>\<open>"Paid"\<close> and the answer
  carries \<^verbatim>\<open>paymentRequired = false\<close>; if \<^verbatim>\<open>paymentMethod\<close> is any other truthy value, the
  added order is \<^verbatim>\<open>"Pending"\<close> and the answer carries \<^verbatim>\<open>paymentRequired = true\<close>.
\<close>

theorem post_orders_payment_state:
  assumes "post_orders E req c = (r, c')" and "status r = 200"
  shows "(getprop (body req) ''paymentMethod'' = JStr ''COD'' \<longrightarrow>
           (\<exists>row. orders (db c') = orders (db c) @ [row] \<and> payment_status row = Some ''Paid'' \<and>
                  json r = Json (JObj [(''orderId'', JNum (Fin (of_int (order_id row)))),
                                       (''paymentRequired'', JBool False)]))) \<and>
         (getprop (body req) ''paymentMethod'' \<noteq> JStr ''COD'' \<and>
          truthy (getprop (body req) ''paymentMethod'') \<longrightarrow>
           (\<exists>row. orders (db c') = orders (db c) @ [row] \<and> payment_status row = Some ''Pending'' \<and>
                  json r = Json (JObj [(''orderId'', JNum (Fin (of_int (order_id row)))),
                                       (''paymentRequired'', JBool True)])))"
  using assms
  by (auto simp add: post_orders_def Let_def pool_query_def js_or_def res_json_def
      res_status_json_def pg_varchar_def
      split: option.splits prod.splits rowset.splits list.splits if_splits Option.bind_splits)

text \<open>An order paid online, against the empty store.\<close>

theorem post_orders_payment_state_witness:
  "status (fst (post_orders test_env
       \<lparr>body = [(''name'', JStr ''A''), (''phone'', JStr ''1''), (''address'', JStr ''x''),
                (''items'', JArr []), (''total'', JNum (Fin 20)),
                (''paymentMethod'', JStr ''Online'')], params_id = ''''\<rparr> visitor_ctx)) = 200 \<and>
   (\<exists>row. orders (db (snd (post_orders test_env
       \<lparr>body = [(''name'', JStr ''A''), (''phone'', JStr ''1''), (''address'', JStr ''x''),
                (''items'', JArr []), (''total'', JNum (Fin 20)),
                (''paymentMethod'', JStr ''Online'')], params_id = ''''\<rparr> visitor_ctx))) =
            orders (db visitor_ctx) @ [row] \<and>
          payment_status row = Some ''Pending'' \<and>
          json (fst (post_orders test_env
       \<lparr>body = [(''name'', JStr ''A''), (''phone'', JStr ''1''), (''address'', JStr ''x''),
                (''items'', JArr []), (''total'', JNum (Fin 20)),
                (''paymentMethod'', JStr ''Online'')], params_id = ''''\<rparr> visitor_ctx)) =
            Json (JObj [(''orderId'', JNum (Fin (of_int (order_id row)))),
                        (''paymentRequired'', JBool True)]))"
proof -
  let ?req = "\<lparr>body = [(''name'', JStr ''A''), (''phone'', JStr ''1''), (''address'', JStr ''x''),
                (''items'', JArr []), (''total'', JNum (Fin 20)),
                (''paymentMethod'', JStr ''Online'')], params_id = ''''\<rparr>"
  have ok: "status (fst (post_orders test_env ?req visitor_ctx)) = 200"
    by (simp add: post_orders_def handler_simps test_env_def visitor_ctx_def)
  have pm: "getprop (body ?req) ''paymentMethod'' \<noteq> JStr ''COD'' \<and>
            truthy (getprop (body ?req) ''paymentMethod'')"
    by (simp add: getprop_def)
  from post_orders_payment_state [OF surjective_pairing ok] pm ok
  show ?thesis by blast
qed

text \<open>
  C1 as stated fails at a \<^verbatim>\<open>paymentMethod\<close> that is not \<^verbatim>\<open>"COD"\<close> but falsy: with the empty
  string the default of line 196 applies, the order is stored as \<^verbatim>\<open>"Paid"\<close> and the answer
  says that no payment is required.
\<close>

theorem post_orders_empty_method_counterexample:
  "getprop [(''name'', JStr ''A''), (''phone'', JStr ''1''), (''address'', JStr ''x''),
            (''items'', JArr []), (''total'', JNum (Fin 20)), (''paymentMethod'', JStr '''')]
     ''paymentMethod'' \<noteq> JStr ''COD'' \<and>
   fst (post_orders test_env
       \<lparr>body = [(''name'', JStr ''A''), (''phone'', JStr ''1''), (''address'', JStr ''x''),
                (''items'', JArr []), (''total'', JNum (Fin 20)), (''paymentMethod'', JStr '''')],
        params_id = ''''\<rparr> visitor_ctx) =
     res_json (Json (JObj [(''orderId'', JNum (Fin 1)), (''paymentRequired'', JBool False)])) \<and>
   map payment_status (orders (db (snd (post_orders test_env
       \<lparr>body = [(''name'', JStr ''A''), (''phone'', JStr ''1''), (''address'', JStr ''x''),
                (''items'', JArr []), (''total'', JNum (Fin 20)), (''paymentMethod'', JStr '''')],
        params_id = ''''\<rparr> visitor_ctx)))) = [Some ''Paid'']"
  by (simp add: post_orders_def handler_simps test_env_def visitor_ctx_def empty_db_def)



subsection \<open>What a handler adds to the log\<close>

lemma pool_query_trace: "trace (snd (pool_query E q c)) = trace c @ [Query q]"
  by (simp add: pool_query_def Let_def split: option.splits prod.splits)

lemma get_pizzas_trace: "trace (snd (get_pizzas E req c)) = trace c @ [Query SelectPizzas]"
  using pool_query_trace [of E SelectPizzas c]
  by (auto simp add: get_pizzas_def split: prod.splits option.splits rowset.splits)

lemma get_orders_trace: "trace (snd (get_orders E req c)) = trace c @ [Query SelectOrders]"
  using pool_query_trace [of E SelectOrders c]
  by (auto simp add: get_orders_def split: prod.splits option.splits rowset.splits)

lemma post_orders_trace: "\<exists>q. trace (snd (post_orders E req c)) = trace c @ [Query q]"
proof -
  let ?pm = "js_or (getprop (body req) ''paymentMethod'') (JStr ''COD'')"
  let ?q = "InsertOrder (getprop (body req) ''name'') (getprop (body req) ''phone'')
              (getprop (body req) ''address'') (JSON_stringify E (getprop (body req) ''items''))
              (getprop (body req) ''total'') ?pm
              (if ?pm = JStr ''COD'' then JStr ''Paid'' else JStr ''Pending'')"
  have "trace (snd (post_orders E req c)) = trace c @ [Query ?q]"
    using pool_query_trace [of E ?q c]
    by (auto simp add: post_orders_def Let_def split: prod.splits option.splits rowset.splits list.splits)
  then show ?thesis by blast
qed

lemma patch_orders_trace:
  "trace (snd (patch_orders E req c)) =
     trace c @ [Query (UpdatePaymentStatus (getprop (body req) ''payment_status'') (params_id req))]"
  using pool_query_trace [of E "UpdatePaymentStatus (getprop (body req) ''payment_status'') (params_id req)" c]
  by (auto simp add: patch_orders_def Let_def split: prod.splits option.splits)

lemma delete_orders_trace:
  "trace (snd (delete_orders E req c)) = trace c @ [Query (DeleteOrder (params_id req))]"
  using pool_query_trace [of E "DeleteOrder (params_id req)" c]
  by (auto simp add: delete_orders_def split: prod.splits option.splits)

lemma delete_pizzas_trace:
  "trace (snd (delete_pizzas E req c)) = trace c @ [Query (DeletePizza (params_id req))]"
  using pool_query_trace [of E "DeletePizza (params_id req)" c]
  by (auto simp add: delete_pizzas_def split: prod.splits option.splits)

lemma post_pizzas_trace:
  "trace (snd (post_pizzas E req c)) = trace c \<or>
   (\<exists>q. trace (snd (post_pizzas E req c)) = trace c @ [Query q])"
  using pool_query_trace [of E "InsertPizza (getprop (body req) ''name'')
           (Number E (getprop (body req) ''price'')) (getprop (body req) ''image'')" c]
  by (auto simp add: post_pizzas_def Let_def split: prod.splits option.splits)

lemma get_messages_trace: "trace (snd (get_messages E req c)) = trace c @ [Query SelectMessages]"
  using pool_query_trace [of E SelectMessages c]
  by (auto simp add: get_messages_def split: prod.splits option.splits rowset.splits)

lemma post_messages_trace: "\<exists>q. trace (snd (post_messages E req c)) = trace c @ [Query q]"
  using pool_query_trace [of E "InsertMessage (getprop (body req) ''name'')
           (getprop (body req) ''email'') (getprop (body req) ''message'')" c]
  by (auto simp add: post_messages_def Let_def split: prod.splits option.splits)

lemma get_messages_v2_trace:
  "trace (snd (get_messages_v2 E req c)) = trace c @ [Query SelectMessages]"
  using pool_query_trace [of E SelectMessages c]
  by (auto simp add: get_messages_v2_def split: prod.splits option.splits rowset.splits)

lemma post_messages_v2_trace: "\<exists>q. trace (snd (post_messages_v2 E req c)) = trace c @ [Query q]"
  using pool_query_trace [of E "InsertMessage (getprop (body req) ''name'')
           (getprop (body req) ''email'') (getprop (body req) ''message'')" c]
  by (auto simp add: post_messages_v2_def Let_def split: prod.splits option.splits)

lemma delete_messages_v2_trace:
  "trace (snd (delete_messages_v2 E req c)) = trace c @ [Query (DeleteMessage (params_id req))]"
  using pool_query_trace [of E "DeleteMessage (params_id req)" c]
  by (auto simp add: delete_messages_v2_def split: prod.splits option.splits)

text \<open>A chain of one handler, and a chain with the guard in front.\<close>

lemma public_chain:
  assumes "\<exists>evs. trace (snd (h E req c)) = trace c @ evs \<and> Guard \<notin> set evs"
  shows "Guard \<notin> set (events c (snd (run_chain [final h] E req c)))"
  using assms by (auto simp add: final_def events_def split: prod.splits)

lemma guarded_chain:
  assumes "\<And>c. \<exists>evs. trace (snd (h E req c)) = trace c @ evs \<and> Guard \<notin> set evs"
  shows "\<exists>evs. events c (snd (run_chain [adminAuth, final h] E req c)) = Guard # evs \<and>
               Guard \<notin> set evs \<and>
               (\<not> is_admin c \<longrightarrow> evs = [] \<and> status (fst (run_chain [adminAuth, final h] E req c)) = 401)"
proof (cases "is_admin c")
  case True
  then have pass: "adminAuth E req c = (None, c\<lparr>trace := trace c @ [Guard]\<rparr>)"
    by (auto simp add: adminAuth_def is_admin_def Let_def split: option.splits)
  from assms [of "c\<lparr>trace := trace c @ [Guard]\<rparr>"] obtain evs where
    "trace (snd (h E req (c\<lparr>trace := trace c @ [Guard]\<rparr>))) = (trace c @ [Guard]) @ evs"
    and "Guard \<notin> set evs" by auto
  with pass True show ?thesis
    by (auto simp add: final_def events_def split: prod.splits)
next
  case False
  then show ?thesis
    by (auto simp add: adminAuth_def is_admin_def Let_def events_def res_status_json_def
        split: option.splits)
qed

lemma guarded_chain_v2:
  assumes "\<And>c. \<exists>evs. trace (snd (h E req c)) = trace c @ evs \<and> Guard \<notin> set evs"
  shows "\<exists>evs. events c (snd (run_chain [adminAuth_v2, final h] E req c)) = Guard # evs \<and>
               Guard \<notin> set evs \<and> (\<not> is_admin c \<longrightarrow> evs = [])"
proof (cases "is_admin c")
  case True
  then have pass: "adminAuth_v2 E req c = (None, c\<lparr>trace := trace c @ [Guard]\<rparr>)"
    by (auto simp add: adminAuth_v2_def is_admin_def Let_def split: option.splits)
  from assms [of "c\<lparr>trace := trace c @ [Guard]\<rparr>"] obtain evs where
    "trace (snd (h E req (c\<lparr>trace := trace c @ [Guard]\<rparr>))) = (trace c @ [Guard]) @ evs"
    and "Guard \<notin> set evs" by auto
  with pass True show ?thesis
    by (auto simp add: final_def events_def split: prod.splits)
next
  case False
  then show ?thesis
    by (auto simp add: adminAuth_v2_def is_admin_def Let_def events_def res_status_json_def
        split: option.splits)
qed

lemma privileged_guarded:
  assumes "privileged r"
  shows "\<exists>evs. events c (snd (dispatch E r req c)) = Guard # evs \<and> Guard \<notin> set evs \<and>
               (\<not> is_admin c \<longrightarrow> evs = [] \<and> status (fst (dispatch E r req c)) = 401)"
proof (cases r)
  case PostPizzas
  have "\<And>c. \<exists>evs. trace (snd (post_pizzas E req c)) = trace c @ evs \<and> Guard \<notin> set evs"
    using post_pizzas_trace by (metis append_Nil2 empty_iff empty_set event.distinct(1) set_ConsD)
  from guarded_chain [of post_pizzas, OF this] PostPizzas show ?thesis
    by (simp add: dispatch_def)
next
  case DeletePizzasId
  have "\<And>c. \<exists>evs. trace (snd (delete_pizzas E req c)) = trace c @ evs \<and> Guard \<notin> set evs"
    by (simp add: delete_pizzas_trace)
  from guarded_chain [of delete_pizzas, OF this] DeletePizzasId show ?thesis
    by (simp add: dispatch_def)
next
  case GetOrders
  have "\<And>c. \<exists>evs. trace (snd (get_orders E req c)) = trace c @ evs \<and> Guard \<notin> set evs"
    by (simp add: get_orders_trace)
  from guarded_chain [of get_orders, OF this] GetOrders show ?thesis
    by (simp add: dispatch_def)
next
  case PatchOrdersId
  have "\<And>c. \<exists>evs. trace (snd (patch_orders E req c)) = trace c @ evs \<and> Guard \<notin> set evs"
    by (simp add: patch_orders_trace)
  from guarded_chain [of patch_orders, OF this] PatchOrdersId show ?thesis
    by (simp add: dispatch_def)
next
  case DeleteOrdersId
  have "\<And>c. \<exists>evs. trace (snd (delete_orders E req c)) = trace c @ evs \<and> Guard \<notin> set evs"
    by (simp add: delete_orders_trace)
  from guarded_chain [of delete_orders, OF this] DeleteOrdersId show ?thesis
    by (simp add: dispatch_def)
next
  case GetMessages
  have "\<And>c. \<exists>evs. trace (snd (get_messages E req c)) = trace c @ evs \<and> Guard \<notin> set evs"
    by (simp add: get_messages_trace)
  from guarded_chain [of get_messages, OF this] GetMessages show ?thesis
    by (simp add: dispatch_def)
qed (use assms in simp_all)

lemma public_unguarded:
  assumes "public_route r"
  shows "Guard \<notin> set (events c (snd (dispatch E r req c)))"
proof (cases r)
  case GetPizzas
  have "\<exists>evs. trace (snd (get_pizzas E req c)) = trace c @ evs \<and> Guard \<notin> set evs"
    by (simp add: get_pizzas_trace)
  from public_chain [where h = get_pizzas, OF this] GetPizzas show ?thesis by (simp add: dispatch_def)
next
  case PostOrders
  have "\<exists>evs. trace (snd (post_orders E req c)) = trace c @ evs \<and> Guard \<notin> set evs"
    using post_orders_trace [of E req c] by auto
  from public_chain [where h = post_orders, OF this] PostOrders show ?thesis by (simp add: dispatch_def)
next
  case PostMessages
  have "\<exists>evs. trace (snd (post_messages E req c)) = trace c @ evs \<and> Guard \<notin> set evs"
    using post_messages_trace [of E req c] by auto
  from public_chain [where h = post_messages, OF this] PostMessages show ?thesis by (simp add: dispatch_def)
qed (use assms in simp_all)

lemma privileged_v2_guarded:
  assumes "privileged_v2 r"
  shows "\<exists>evs. events c (snd (dispatch_v2 E r req c)) = Guard # evs \<and> Guard \<notin> set evs \<and>
               (\<not> is_admin c \<longrightarrow> evs = [])"
proof (cases r)
  case GetMessagesV2
  have "\<And>c. \<exists>evs. trace (snd (get_messages_v2 E req c)) = trace c @ evs \<and> Guard \<notin> set evs"
    by (simp add: get_messages_v2_trace)
  from guarded_chain_v2 [of get_messages_v2, OF this] GetMessagesV2 show ?thesis
    by (simp add: dispatch_v2_def)
next
  case DeleteMessagesIdV2
  have "\<And>c. \<exists>evs. trace (snd (delete_messages_v2 E req c)) = trace c @ evs \<and> Guard \<notin> set evs"
    by (simp add: delete_messages_v2_trace)
  from guarded_chain_v2 [of delete_messages_v2, OF this] DeleteMessagesIdV2 show ?thesis
    by (simp add: dispatch_v2_def)
qed (use assms in simp_all)

lemma public_v2_unguarded:
  assumes "public_route_v2 r"
  shows "Guard \<notin> set (events c (snd (dispatch_v2 E r req c)))"
proof (cases r)
  case PostMessagesV2
  have "\<exists>evs. trace (snd (post_messages_v2 E req c)) = trace c @ evs \<and> Guard \<notin> set evs"
    using post_messages_v2_trace [of E req c] by auto
  from public_chain [where h = post_messages_v2, OF this] PostMessagesV2 show ?thesis by (simp add: dispatch_v2_def)
qed (use assms in simp_all)

subsection \<open>The guard and the routes\<close>

text \<open>
  C2. On every privileged route the first thing logged is the run of the guard, so it
  comes before any statement to the store, and it runs once; when the session is not the
  administrator's nothing else is logged at all (in \<^verbatim>\<open>src/server.js\<close> the answer is
  then 401). On no public route is the guard run.
\<close>

theorem guard_runs_first_on_privileged_routes:
  "(privileged r \<longrightarrow>
      (\<exists>evs. events c (snd (dispatch E r req c)) = Guard # evs \<and> Guard \<notin> set evs \<and>
             (\<not> is_admin c \<longrightarrow> evs = [] \<and> status (fst (dispatch E r req c)) = 401))) \<and>
   (public_route r \<longrightarrow> Guard \<notin> set (events c (snd (dispatch E r req c)))) \<and>
   (privileged_v2 r2 \<longrightarrow>
      (\<exists>evs. events c (snd (dispatch_v2 E r2 req c)) = Guard # evs \<and> Guard \<notin> set evs \<and>
             (\<not> is_admin c \<longrightarrow> evs = []))) \<and>
   (public_route_v2 r2 \<longrightarrow> Guard \<notin> set (events c (snd (dispatch_v2 E r2 req c))))"
  using privileged_guarded [of r c E req] public_unguarded [of r c E req]
    privileged_v2_guarded [of r2 c E req] public_v2_unguarded [of r2 c E req]
  by blast

text \<open>
  Deleting an order as a visitor and as the administrator, and sending a message as a
  visitor, in both versions.
\<close>

theorem guard_runs_first_on_privileged_routes_witness:
  "privileged DeleteOrdersId \<and> \<not> is_admin visitor_ctx \<and> is_admin admin_ctx \<and>
   events visitor_ctx (snd (dispatch test_env DeleteOrdersId \<lparr>body = [], params_id = ''1''\<rparr> visitor_ctx))
     = [Guard] \<and>
   events admin_ctx (snd (dispatch test_env DeleteOrdersId \<lparr>body = [], params_id = ''1''\<rparr> admin_ctx))
     = [Guard, Query (DeleteOrder ''1'')] \<and>
   public_route PostMessages \<and>
   Guard \<notin> set (events visitor_ctx (snd (dispatch test_env PostMessages
       \<lparr>body = [(''name'', JStr ''A''), (''email'', JStr ''a@b.c''), (''message'', JStr ''hi'')],
        params_id = ''''\<rparr> visitor_ctx))) \<and>
   privileged_v2 DeleteMessagesIdV2 \<and>
   events visitor_ctx (snd (dispatch_v2 test_env DeleteMessagesIdV2 \<lparr>body = [], params_id = ''1''\<rparr> visitor_ctx))
     = [Guard] \<and>
   public_route_v2 PostMessagesV2 \<and>
   Guard \<notin> set (events visitor_ctx (snd (dispatch_v2 test_env PostMessagesV2
       \<lparr>body = [(''name'', JStr ''A''), (''email'', JStr ''a@b.c''), (''message'', JStr ''hi'')],
        params_id = ''''\<rparr> visitor_ctx)))"
proof -
  let ?del = "\<lparr>body = [], params_id = ''1''\<rparr>"
  let ?msg = "\<lparr>body = [(''name'', JStr ''A''), (''email'', JStr ''a@b.c''), (''message'', JStr ''hi'')],
        params_id = ''''\<rparr>"
  have cls: "privileged DeleteOrdersId \<and> public_route PostMessages \<and>
             privileged_v2 DeleteMessagesIdV2 \<and> public_route_v2 PostMessagesV2 \<and>
             \<not> is_admin visitor_ctx \<and> is_admin admin_ctx"
    by (simp add: is_admin_def visitor_ctx_def admin_ctx_def new_session_def)
  have adm: "events admin_ctx (snd (dispatch test_env DeleteOrdersId ?del admin_ctx))
               = [Guard, Query (DeleteOrder ''1'')]"
    by (simp add: dispatch_def adminAuth_def final_def delete_orders_def handler_simps
        admin_ctx_def test_env_def decimal_def empty_db_def)
  from guard_runs_first_on_privileged_routes
         [where r = DeleteOrdersId and c = visitor_ctx and E = test_env and req = ?del
            and ?r2.0 = DeleteMessagesIdV2]
       guard_runs_first_on_privileged_routes
         [where r = PostMessages and c = visitor_ctx and E = test_env and req = ?msg
            and ?r2.0 = PostMessagesV2]
       cls adm
  show ?thesis by auto
qed

subsection \<open>Login and the guard\<close>

text \<open>
  What the login answers when \<^verbatim>\<open>bcrypt.compare\<close> resolves to false and when it rejects.
\<close>

lemma login_mismatch_is_401:
  assumes "getprop (body req1) ''username'' \<noteq> JStr (username adminUser)"
    and "getprop (body req2) ''username'' = JStr (username adminUser)"
    and "bcrypt_compare E (getprop (body req2) ''password'') (passwordHash adminUser) = Some False"
  shows "fst (post_admin_login E req1 c1) = fst (post_admin_login E req2 c2) \<and>
         fst (post_admin_login E req1 c1) =
           \<lparr>status = 401, json = Json (JObj [(''success'', JBool False)]), clearCookie = None\<rparr> \<and>
         snd (post_admin_login E req1 c1) = c1 \<and>
         snd (post_admin_login E req2 c2) = c2"
  using assms by (simp add: post_admin_login_def Let_def res_status_json_def)

lemma login_rejected_compare_is_500:
  assumes "getprop (body req) ''username'' = JStr (username adminUser)"
    and "bcrypt_compare E (getprop (body req) ''password'') (passwordHash adminUser) = None"
  shows "post_admin_login E req c =
           (\<lparr>status = 500, json = Json (JObj [(''success'', JBool False)]), clearCookie = None\<rparr>, c)"
  using assms by (simp add: post_admin_login_def Let_def res_status_json_def)

text \<open>
  C3 says that a failing login with a username other than the administrator's and a
  failing login with the administrator's username get the same answer. The code does not
  keep to that when the password is missing: \<^verbatim>\<open>bcrypt.compare\<close> rejects a password that is
  not a string, the \<^verbatim>\<open>catch\<close> answers 500, and the same request with another username is
  answered 401 before the comparison is reached. Neither request changes the session.
\<close>

theorem login_without_password_tells_usernames_apart:
  "fst (post_admin_login test_env
          \<lparr>body = [(''username'', JStr ''Mallory'')], params_id = ''''\<rparr> visitor_ctx) =
     \<lparr>status = 401, json = Json (JObj [(''success'', JBool False)]), clearCookie = None\<rparr> \<and>
   fst (post_admin_login test_env
          \<lparr>body = [(''username'', JStr ''Owner'')], params_id = ''''\<rparr> visitor_ctx) =
     \<lparr>status = 500, json = Json (JObj [(''success'', JBool False)]), clearCookie = None\<rparr> \<and>
   snd (post_admin_login test_env
          \<lparr>body = [(''username'', JStr ''Owner'')], params_id = ''''\<rparr> visitor_ctx) = visitor_ctx"
  by (simp add: post_admin_login_def Let_def res_status_json_def getprop_def adminUser_def
      test_env_def)

text \<open>
  C4. With \<^verbatim>\<open>req.session\<close> looked up from the session store, the guard lets the request
  pass exactly when the cookie names a stored session that has not expired and whose
  \<^verbatim>\<open>admin\<close> is \<^verbatim>\<open>true\<close>; in every other case (no cookie, an unknown id, an expired session,
  a session whose \<^verbatim>\<open>admin\<close> is absent or false) it answers 401.
\<close>

theorem adminAuth_allows_iff:
  "(fst (adminAuth E req (c\<lparr>session := Some (load_session S t cookie)\<rparr>)) = None) =
     (\<exists>sid e. cookie = Some sid \<and> S sid = Some e \<and> t < expires e \<and> admin (data e) = Some True)
   \<and> (fst (adminAuth E req (c\<lparr>session := Some (load_session S t cookie)\<rparr>)) \<noteq> None \<longrightarrow>
        fst (adminAuth E req (c\<lparr>session := Some (load_session S t cookie)\<rparr>)) =
          Some \<lparr>status = 401, json = Json (JObj [(''error'', JStr ''Unauthorized'')]),
                clearCookie = None\<rparr>)"
  by (auto simp add: adminAuth_def load_session_def new_session_def Let_def res_status_json_def
      split: option.splits)

text \<open>The administrator's session at the moment it expires, and one millisecond before.\<close>

theorem adminAuth_allows_iff_witness:
  "fst (adminAuth test_env \<lparr>body = [], params_id = ''''\<rparr>
     (visitor_ctx\<lparr>session := Some (load_session
        [''s1'' \<mapsto> \<lparr>expires = 2000, data = \<lparr>admin = Some True\<rparr>\<rparr>] 2000 (Some ''s1''))\<rparr>)) \<noteq> None \<and>
   fst (adminAuth test_env \<lparr>body = [], params_id = ''''\<rparr>
     (visitor_ctx\<lparr>session := Some (load_session
        [''s1'' \<mapsto> \<lparr>expires = 2000, data = \<lparr>admin = Some True\<rparr>\<rparr>] 2000 (Some ''s1''))\<rparr>)) =
     Some \<lparr>status = 401, json = Json (JObj [(''error'', JStr ''Unauthorized'')]),
           clearCookie = None\<rparr> \<and>
   fst (adminAuth test_env \<lparr>body = [], params_id = ''''\<rparr>
     (visitor_ctx\<lparr>session := Some (load_session
        [''s1'' \<mapsto> \<lparr>expires = 2000, data = \<lparr>admin = Some True\<rparr>\<rparr>] 1999 (Some ''s1''))\<rparr>)) = None"
proof -
  let ?S = "[''s1'' \<mapsto> \<lparr>expires = 2000, data = \<lparr>admin = Some True\<rparr>\<rparr>]"
  have late: "fst (adminAuth test_env \<lparr>body = [], params_id = ''''\<rparr>
     (visitor_ctx\<lparr>session := Some (load_session ?S 2000 (Some ''s1''))\<rparr>)) \<noteq> None"
    by (simp add: adminAuth_def load_session_def new_session_def Let_def)
  have intime: "\<exists>sid e. Some ''s1'' = Some sid \<and> ?S sid = Some e \<and> (1999::nat) < expires e \<and>
                  admin (data e) = Some True"
    by simp
  from adminAuth_allows_iff [where E = test_env and req = "\<lparr>body = [], params_id = ''''\<rparr>"
         and c = visitor_ctx and S = ?S and t = 2000 and cookie = "Some ''s1''"]
       adminAuth_allows_iff [where E = test_env and req = "\<lparr>body = [], params_id = ''''\<rparr>"
         and c = visitor_ctx and S = ?S and t = 1999 and cookie = "Some ''s1''"]
       late intime
  show ?thesis by blast
qed

subsection \<open>Deleting by id\<close>

lemma filter_no_match: "k \<notin> set (map f xs) \<Longrightarrow> filter (\<lambda>r. f r \<noteq> k) xs = xs"
  by (induction xs) auto

lemma admin_passes:
  "is_admin c \<Longrightarrow> adminAuth E req c = (None, c\<lparr>trace := trace c @ [Guard]\<rparr>)"
  by (auto simp add: adminAuth_def is_admin_def Let_def split: option.splits)

lemma admin_passes_v2:
  "is_admin c \<Longrightarrow> adminAuth_v2 E req c = (None, c\<lparr>trace := trace c @ [Guard]\<rparr>)"
  by (auto simp add: adminAuth_v2_def is_admin_def Let_def split: option.splits)

lemma admin_passes_v3:
  "is_admin c \<Longrightarrow> adminAuth_v3 E req c = (None, c\<lparr>trace := trace c @ [Guard]\<rparr>)"
  by (auto simp add: adminAuth_v3_def is_admin_def Let_def split: option.splits)

lemma guarded_as_admin:
  "is_admin c \<Longrightarrow>
   run_chain [adminAuth, final h] E req c = h E req (c\<lparr>trace := trace c @ [Guard]\<rparr>)"
  by (simp add: admin_passes final_def split: prod.splits)

lemma guarded_as_admin_v2:
  "is_admin c \<Longrightarrow>
   run_chain [adminAuth_v2, final h] E req c = h E req (c\<lparr>trace := trace c @ [Guard]\<rparr>)"
  by (simp add: admin_passes_v2 final_def split: prod.splits)

lemma guarded_as_admin_v3:
  "is_admin c \<Longrightarrow>
   run_chain [adminAuth_v3, final h] E req c = h E req (c\<lparr>trace := trace c @ [Guard]\<rparr>)"
  by (simp add: admin_passes_v3 final_def split: prod.splits)

lemma delete_pizzas_answer:
  "fst (delete_pizzas E req c) =
     (if pg_fails E (DeletePizza (params_id req)) \<or> pg_int4 E (params_id req) = None
      then res_status_json 500 (Json (JObj [(''success'', JBool False)]))
      else res_json (Json (JObj [(''success'', JBool True)])))"
  by (auto simp add: delete_pizzas_def pool_query_def Let_def split: option.splits)

lemma delete_pizzas_rows:
  "\<not> pg_fails E (DeletePizza (params_id req)) \<Longrightarrow> pg_int4 E (params_id req) = Some k \<Longrightarrow>
   pizzas (db (snd (delete_pizzas E req c))) = filter (\<lambda>r. pizza_id r \<noteq> k) (pizzas (db c))"
  by (simp add: delete_pizzas_def pool_query_def Let_def)

lemma delete_pizzas_missing:
  "id_matches_none E (params_id req) (map pizza_id (pizzas (db c))) \<Longrightarrow>
   db (snd (delete_pizzas E req c)) = db c"
  by (auto simp add: delete_pizzas_def pool_query_def Let_def id_matches_none_def filter_no_match
      split: option.splits)

lemma delete_orders_answer:
  "fst (delete_orders E req c) =
     (if pg_fails E (DeleteOrder (params_id req)) \<or> pg_int4 E (params_id req) = None
      then res_status_json 500 (Json (JObj [(''success'', JBool False)]))
      else res_json (Json (JObj [(''success'', JBool True)])))"
  by (auto simp add: delete_orders_def pool_query_def Let_def split: option.splits)

lemma delete_orders_rows:
  "\<not> pg_fails E (DeleteOrder (params_id req)) \<Longrightarrow> pg_int4 E (params_id req) = Some k \<Longrightarrow>
   orders (db (snd (delete_orders E req c))) = filter (\<lambda>r. order_id r \<noteq> k) (orders (db c))"
  by (simp add: delete_orders_def pool_query_def Let_def)

lemma delete_orders_missing:
  "id_matches_none E (params_id req) (map order_id (orders (db c))) \<Longrightarrow>
   db (snd (delete_orders E req c)) = db c"
  by (auto simp add: delete_orders_def pool_query_def Let_def id_matches_none_def filter_no_match
      split: option.splits)

lemma delete_messages_v2_answer:
  "fst (delete_messages_v2 E req c) =
     (if pg_fails E (DeleteMessage (params_id req)) \<or> pg_int4 E (params_id req) = None
      then res_status_json 500 (Json (JObj [(''error'', JStr ''Database error'')]))
      else res_json (Json (JObj [(''message'', JStr ''Deleted'')])))"
  by (auto simp add: delete_messages_v2_def pool_query_def Let_def split: option.splits)

lemma delete_messages_v2_rows:
  "\<not> pg_fails E (DeleteMessage (params_id req)) \<Longrightarrow> pg_int4 E (params_id req) = Some k \<Longrightarrow>
   messages (db (snd (delete_messages_v2 E req c))) = filter (\<lambda>r. message_id r \<noteq> k) (messages (db c))"
  by (simp add: delete_messages_v2_def pool_query_def Let_def)

lemma delete_messages_v2_missing:
  "id_matches_none E (params_id req) (map message_id (messages (db c))) \<Longrightarrow>
   db (snd (delete_messages_v2 E req c)) = db c"
  by (auto simp add: delete_messages_v2_def pool_query_def Let_def id_matches_none_def filter_no_match
      split: option.splits)

lemma delete_messages_v3_answer:
  "fst (delete_messages_v3 E req c) =
     (if pg_fails E (DeleteMessage (params_id req)) \<or> pg_int4 E (params_id req) = None
      then res_status_json 500 (Json (JObj [(''success'', JBool False)]))
      else res_json (Json (JObj [(''success'', JBool True)])))"
  by (auto simp add: delete_messages_v3_def pool_query_def Let_def split: option.splits)

lemma delete_messages_v3_rows:
  "\<not> pg_fails E (DeleteMessage (params_id req)) \<Longrightarrow> pg_int4 E (params_id req) = Some k \<Longrightarrow>
   messages (db (snd (delete_messages_v3 E req c))) = filter (\<lambda>r. message_id r \<noteq> k) (messages (db c))"
  by (simp add: delete_messages_v3_def pool_query_def Let_def)

lemma delete_messages_v3_missing:
  "id_matches_none E (params_id req) (map message_id (messages (db c))) \<Longrightarrow>
   db (snd (delete_messages_v3 E req c)) = db c"
  by (auto simp add: delete_messages_v3_def pool_query_def Let_def id_matches_none_def filter_no_match
      split: option.splits)

text \<open>
  C5, as amended. For the administrator, the answer of a delete of a pizza, an order or a
  message does not depend on whether a row has that id: it is the success response when
  the store is up and reads the id as an integer, and 500 otherwise, never 404. A delete
  that the store runs removes the rows of that id; when the id matches no stored row the
  tables stay as they are. Every throw of the store is caught.
\<close>

theorem delete_answers_success_without_a_match:
  assumes "is_admin c"
  shows "fst (dispatch E DeletePizzasId req c) =
           (if pg_fails E (DeletePizza (params_id req)) \<or> pg_int4 E (params_id req) = None
            then res_status_json 500 (Json (JObj [(''success'', JBool False)]))
            else res_json (Json (JObj [(''success'', JBool True)]))) \<and>
         (\<forall>k. \<not> pg_fails E (DeletePizza (params_id req)) \<and> pg_int4 E (params_id req) = Some k \<longrightarrow>
            pizzas (db (snd (dispatch E DeletePizzasId req c))) = filter (\<lambda>r. pizza_id r \<noteq> k) (pizzas (db c))) \<and>
         (id_matches_none E (params_id req) (map pizza_id (pizzas (db c))) \<longrightarrow>
            db (snd (dispatch E DeletePizzasId req c)) = db c) \<and>
         fst (dispatch E DeleteOrdersId req c) =
           (if pg_fails E (DeleteOrder (params_id req)) \<or> pg_int4 E (params_id req) = None
            then res_status_json 500 (Json (JObj [(''success'', JBool False)]))
            else res_json (Json (JObj [(''success'', JBool True)]))) \<and>
         (\<forall>k. \<not> pg_fails E (DeleteOrder (params_id req)) \<and> pg_int4 E (params_id req) = Some k \<longrightarrow>
            orders (db (snd (dispatch E DeleteOrdersId req c))) = filter (\<lambda>r. order_id r \<noteq> k) (orders (db c))) \<and>
         (id_matches_none E (params_id req) (map order_id (orders (db c))) \<longrightarrow>
            db (snd (dispatch E DeleteOrdersId req c)) = db c) \<and>
         fst (dispatch_v2 E DeleteMessagesIdV2 req c) =
           (if pg_fails E (DeleteMessage (params_id req)) \<or> pg_int4 E (params_id req) = None
            then res_status_json 500 (Json (JObj [(''error'', JStr ''Database error'')]))
            else res_json (Json (JObj [(''message'', JStr ''Deleted'')]))) \<and>
         (\<forall>k. \<not> pg_fails E (DeleteMessage (params_id req)) \<and> pg_int4 E (params_id req) = Some k \<longrightarrow>
            messages (db (snd (dispatch_v2 E DeleteMessagesIdV2 req c))) = filter (\<lambda>r. message_id r \<noteq> k) (messages (db c))) \<and>
         (id_matches_none E (params_id req) (map message_id (messages (db c))) \<longrightarrow>
            db (snd (dispatch_v2 E DeleteMessagesIdV2 req c)) = db c) \<and>
         fst (run_chain delete_messages_route_v3 E req c) =
           (if pg_fails E (DeleteMessage (params_id req)) \<or> pg_int4 E (params_id req) = None
            then res_status_json 500 (Json (JObj [(''success'', JBool False)]))
            else res_json (Json (JObj [(''success'', JBool True)]))) \<and>
         (\<forall>k. \<not> pg_fails E (DeleteMessage (params_id req)) \<and> pg_int4 E (params_id req) = Some k \<longrightarrow>
            messages (db (snd (run_chain delete_messages_route_v3 E req c))) = filter (\<lambda>r. message_id r \<noteq> k) (messages (db c))) \<and>
         (id_matches_none E (params_id req) (map message_id (messages (db c))) \<longrightarrow>
            db (snd (run_chain delete_messages_route_v3 E req c)) = db c)"
proof -
  let ?c = "c\<lparr>trace := trace c @ [Guard]\<rparr>"
  have p: "dispatch E DeletePizzasId req c = delete_pizzas E req ?c"
    and o: "dispatch E DeleteOrdersId req c = delete_orders E req ?c"
    and m2: "dispatch_v2 E DeleteMessagesIdV2 req c = delete_messages_v2 E req ?c"
    and m3: "run_chain delete_messages_route_v3 E req c = delete_messages_v3 E req ?c"
    using assms
    by (simp_all add: dispatch_def dispatch_v2_def delete_messages_route_v3_def guarded_as_admin
        guarded_as_admin_v2 guarded_as_admin_v3 del: run_chain.simps)
  show ?thesis
    unfolding p o m2 m3
    using delete_pizzas_missing [of E req ?c] delete_orders_missing [of E req ?c]
      delete_messages_v2_missing [of E req ?c] delete_messages_v3_missing [of E req ?c]
      delete_pizzas_rows [of E req _ ?c] delete_orders_rows [of E req _ ?c]
      delete_messages_v2_rows [of E req _ ?c] delete_messages_v3_rows [of E req _ ?c]
    by (simp add: delete_pizzas_answer delete_orders_answer delete_messages_v2_answer
        delete_messages_v3_answer)
qed

text \<open>Deleting order 2, and then order 1, from a store that holds order 1 only.\<close>

theorem delete_answers_success_without_a_match_witness:
  "is_admin (orders_ctx [sample_order 1 ''COD'' ''Paid'']) \<and>
   id_matches_none test_env ''2''
     (map order_id (orders (db (orders_ctx [sample_order 1 ''COD'' ''Paid''])))) \<and>
   \<not> id_matches_none test_env ''1''
     (map order_id (orders (db (orders_ctx [sample_order 1 ''COD'' ''Paid''])))) \<and>
   fst (dispatch test_env DeleteOrdersId \<lparr>body = [], params_id = ''2''\<rparr>
          (orders_ctx [sample_order 1 ''COD'' ''Paid''])) =
     \<lparr>status = 200, json = Json (JObj [(''success'', JBool True)]), clearCookie = None\<rparr> \<and>
   db (snd (dispatch test_env DeleteOrdersId \<lparr>body = [], params_id = ''2''\<rparr>
          (orders_ctx [sample_order 1 ''COD'' ''Paid'']))) =
     db (orders_ctx [sample_order 1 ''COD'' ''Paid'']) \<and>
   fst (dispatch test_env DeleteOrdersId \<lparr>body = [], params_id = ''1''\<rparr>
          (orders_ctx [sample_order 1 ''COD'' ''Paid''])) =
     \<lparr>status = 200, json = Json (JObj [(''success'', JBool True)]), clearCookie = None\<rparr> \<and>
   orders (db (snd (dispatch test_env DeleteOrdersId \<lparr>body = [], params_id = ''1''\<rparr>
          (orders_ctx [sample_order 1 ''COD'' ''Paid''])))) = []"
proof -
  let ?c = "orders_ctx [sample_order 1 ''COD'' ''Paid'']"
  have adm: "is_admin ?c"
    by (simp add: is_admin_def orders_ctx_def admin_ctx_def)
  have none: "id_matches_none test_env ''2'' (map order_id (orders (db ?c)))"
    and one: "\<not> id_matches_none test_env ''1'' (map order_id (orders (db ?c)))"
    by (simp_all add: id_matches_none_def test_env_def decimal_def orders_ctx_def sample_order_def)
  have env: "\<not> pg_fails test_env (DeleteOrder ''2'') \<and> pg_int4 test_env ''2'' \<noteq> None \<and>
             \<not> pg_fails test_env (DeleteOrder ''1'') \<and> pg_int4 test_env ''1'' \<noteq> None"
    by (simp add: test_env_def decimal_def)
  have k1: "pg_int4 test_env ''1'' = Some 1"
    by (simp add: test_env_def decimal_def)
  have gone: "filter (\<lambda>r. order_id r \<noteq> 1) (orders (db ?c)) = []"
    by (simp add: orders_ctx_def sample_order_def)
  from delete_answers_success_without_a_match [OF adm, of test_env "\<lparr>body = [], params_id = ''2''\<rparr>"]
       delete_answers_success_without_a_match [OF adm, of test_env "\<lparr>body = [], params_id = ''1''\<rparr>"]
       adm none one env k1 gone
  show ?thesis by (simp add: res_json_def res_status_json_def)
qed

text \<open>
  C5 as stated fails: the delete of pizza 999 from an empty catalog answers with status
  200 and \<^verbatim>\<open>{success: true}\<close>, not with 404.
\<close>

theorem delete_of_missing_id_counterexample:
  "pizzas (db admin_ctx) = [] \<and>
   pg_int4 test_env ''999'' = Some 999 \<and>
   fst (dispatch test_env DeletePizzasId \<lparr>body = [], params_id = ''999''\<rparr> admin_ctx) =
     \<lparr>status = 200, json = Json (JObj [(''success'', JBool True)]), clearCookie = None\<rparr>"
  by (simp add: dispatch_def adminAuth_def final_def delete_pizzas_def handler_simps
      admin_ctx_def test_env_def decimal_def empty_db_def)

subsection \<open>Confirming a payment\<close>

lemma count_zero_iff:
  "(length (filter (\<lambda>r. f r = k) xs) = 0) = (k \<notin> set (map f xs))"
  by (auto simp add: filter_empty_conv)

text \<open>
  C6, as amended. \<^verbatim>\<open>POST /api/confirm-payment/:id\<close> of the second version runs no guard and
  sends one statement, with the \<^verbatim>\<open>transactionId\<close> of the body (\<^verbatim>\<open>"N/A"\<close> when the body has
  none). When the store refuses it (the store is down, the id is not an integer, the
  text of the \<^verbatim>\<open>transactionId\<close> does not fit the column of 100 characters) the answer is
  500 and nothing changes. Otherwise every order with that id gets \<open>payment_status\<close>
  \<^verbatim>\<open>"Paid"\<close>, whatever its status was, and the text that the driver sends for the
  \<^verbatim>\<open>transactionId\<close> as its \<open>transaction_id\<close>, which for a string of at most 100
  characters is that string; its other columns and all other orders stay as they are,
  and the answer is 404 when no order has that id and a success otherwise.
\<close>

theorem confirm_payment_sets_paid:
  assumes "tx = (if getprop (body req) ''transactionId'' = JUndefined then JStr ''N/A''
                 else getprop (body req) ''transactionId'')"
  shows "events c (snd (dispatch_v2 E PostConfirmPaymentId req c)) =
           [Query (ConfirmPayment tx (params_id req))] \<and>
         (pg_fails E (ConfirmPayment tx (params_id req)) \<or> pg_int4 E (params_id req) = None \<or>
          nullable (pg_varchar 100) (pg_prepare E tx) = None \<longrightarrow>
            fst (dispatch_v2 E PostConfirmPaymentId req c) =
              res_status_json 500 (Json (JObj [(''error'', JStr ''Database error'')])) \<and>
            db (snd (dispatch_v2 E PostConfirmPaymentId req c)) = db c) \<and>
         (\<forall>k t. \<not> pg_fails E (ConfirmPayment tx (params_id req)) \<and>
                pg_int4 E (params_id req) = Some k \<and>
                nullable (pg_varchar 100) (pg_prepare E tx) = Some t \<longrightarrow>
            orders (db (snd (dispatch_v2 E PostConfirmPaymentId req c))) =
              map (\<lambda>row. if order_id row = k
                          then row\<lparr>transaction_id := t, payment_status := Some ''Paid''\<rparr>
                          else row)
                  (orders (db c)) \<and>
            fst (dispatch_v2 E PostConfirmPaymentId req c) =
              (if k \<in> set (map order_id (orders (db c)))
               then res_json (Json (JObj [(''success'', JBool True)]))
               else res_status_json 404 (Json (JObj [(''success'', JBool False)])))) \<and>
         (\<forall>s. tx = JStr s \<and> length s \<le> 100 \<and> CHR 0x00 \<notin> set s \<longrightarrow>
            nullable (pg_varchar 100) (pg_prepare E tx) = Some (Some s))"
proof -
  let ?q = "ConfirmPayment tx (params_id req)"
  let ?R = "dispatch_v2 E PostConfirmPaymentId req c"
  have run: "?R =
      (case pool_query E ?q c of
         (Some r, c') \<Rightarrow>
           if rowCount r = 0
           then (res_status_json 404 (Json (JObj [(''success'', JBool False)])), c')
           else (res_json (Json (JObj [(''success'', JBool True)])), c')
       | (None, c') \<Rightarrow>
           (res_status_json 500 (Json (JObj [(''error'', JStr ''Database error'')])), c'))"
    using assms
    by (simp add: dispatch_v2_def final_def confirm_payment_def Let_def
        split: prod.splits option.splits)
  have ev: "events c (snd ?R) = [Query ?q]"
    using pool_query_trace [of E ?q c] unfolding run
    by (auto simp add: events_def split: prod.splits option.splits if_splits)
  have refused: "fst ?R = res_status_json 500 (Json (JObj [(''error'', JStr ''Database error'')])) \<and>
                 db (snd ?R) = db c"
    if "pg_fails E ?q \<or> pg_int4 E (params_id req) = None \<or>
        nullable (pg_varchar 100) (pg_prepare E tx) = None"
  proof -
    from that have "\<not> store_accepts E ?q c"
      by (auto simp add: store_accepts_def split: Option.bind_splits)
    from pool_query_refuses [OF this] show ?thesis unfolding run by simp
  qed
  have accepted: "orders (db (snd ?R)) =
              map (\<lambda>row. if order_id row = k
                          then row\<lparr>transaction_id := t, payment_status := Some ''Paid''\<rparr>
                          else row)
                  (orders (db c)) \<and>
            fst ?R =
              (if k \<in> set (map order_id (orders (db c)))
               then res_json (Json (JObj [(''success'', JBool True)]))
               else res_status_json 404 (Json (JObj [(''success'', JBool False)])))"
    if "\<not> pg_fails E ?q \<and> pg_int4 E (params_id req) = Some k \<and>
        nullable (pg_varchar 100) (pg_prepare E tx) = Some t" for k t
  proof -
    from that have "pool_query E ?q c =
        (Some \<lparr>rows = NoRows,
               rowCount = length (filter (\<lambda>r. order_id r = k) (orders (db c)))\<rparr>,
         c\<lparr>trace := trace c @ [Query ?q],
           db := (db c)\<lparr>orders :=
             map (\<lambda>row. if order_id row = k
                         then row\<lparr>transaction_id := t, payment_status := Some ''Paid''\<rparr>
                         else row)
                 (orders (db c))\<rparr>\<rparr>)"
      by (simp add: pool_query_def Let_def)
    then show ?thesis
      unfolding run using count_zero_iff [of order_id k "orders (db c)"]
      by (simp del: length_0_conv)
  qed
  have fits: "nullable (pg_varchar 100) (pg_prepare E tx) = Some (Some s)"
    if "tx = JStr s \<and> length s \<le> 100 \<and> CHR 0x00 \<notin> set s" for s
    using that by (simp add: pg_varchar_def)
  from ev refused accepted fits show ?thesis by blast
qed

text \<open>Confirming the pending order 2 of two orders, and an order 7 that is not there.\<close>

theorem confirm_payment_sets_paid_witness:
  "orders (db (snd (dispatch_v2 test_env PostConfirmPaymentId
       \<lparr>body = [(''transactionId'', JStr ''TX-77'')], params_id = ''2''\<rparr>
       (orders_ctx [sample_order 1 ''COD'' ''COD'', sample_order 2 ''Online'' ''Pending''])))) =
     [sample_order 1 ''COD'' ''COD'',
      (sample_order 2 ''Online'' ''Paid'')\<lparr>transaction_id := Some ''TX-77''\<rparr>] \<and>
   fst (dispatch_v2 test_env PostConfirmPaymentId
       \<lparr>body = [(''transactionId'', JStr ''TX-77'')], params_id = ''2''\<rparr>
       (orders_ctx [sample_order 1 ''COD'' ''COD'', sample_order 2 ''Online'' ''Pending''])) =
     \<lparr>status = 200, json = Json (JObj [(''success'', JBool True)]), clearCookie = None\<rparr> \<and>
   fst (dispatch_v2 test_env PostConfirmPaymentId
       \<lparr>body = [(''transactionId'', JStr ''TX-77'')], params_id = ''7''\<rparr>
       (orders_ctx [sample_order 1 ''COD'' ''COD'', sample_order 2 ''Online'' ''Pending''])) =
     \<lparr>status = 404, json = Json (JObj [(''success'', JBool False)]), clearCookie = None\<rparr>"
proof -
  let ?r2 = "\<lparr>body = [(''transactionId'', JStr ''TX-77'')], params_id = ''2''\<rparr>"
  let ?r7 = "\<lparr>body = [(''transactionId'', JStr ''TX-77'')], params_id = ''7''\<rparr>"
  let ?c = "orders_ctx [sample_order 1 ''COD'' ''COD'', sample_order 2 ''Online'' ''Pending'']"
  have tx2: "JStr ''TX-77'' =
        (if getprop (body ?r2) ''transactionId'' = JUndefined then JStr ''N/A''
         else getprop (body ?r2) ''transactionId'')"
    and tx7: "JStr ''TX-77'' =
        (if getprop (body ?r7) ''transactionId'' = JUndefined then JStr ''N/A''
         else getprop (body ?r7) ''transactionId'')"
    by (simp_all add: getprop_def)
  have env: "\<not> pg_fails test_env (ConfirmPayment (JStr ''TX-77'') ''2'') \<and>
             \<not> pg_fails test_env (ConfirmPayment (JStr ''TX-77'') ''7'') \<and>
             pg_int4 test_env ''2'' = Some 2 \<and> pg_int4 test_env ''7'' = Some 7 \<and>
             nullable (pg_varchar 100) (pg_prepare test_env (JStr ''TX-77'')) = Some (Some ''TX-77'')"
    by (simp add: test_env_def decimal_def pg_varchar_def)
  from confirm_payment_sets_paid [OF tx2, of ?c test_env]
       confirm_payment_sets_paid [OF tx7, of ?c test_env] env
  show ?thesis
    by (simp add: orders_ctx_def sample_order_def res_json_def res_status_json_def)
qed

text \<open>
  C6 as stated fails in three places: an order that the second version has stored with
  the status \<^verbatim>\<open>"COD"\<close>, not \<^verbatim>\<open>"Pending"\<close>, is moved to \<^verbatim>\<open>"Paid"\<close> as well; the id \<^verbatim>\<open>abc\<close>,
  which no order has, is answered 500, not 404; and the \<^verbatim>\<open>transactionId\<close> \<^verbatim>\<open>true\<close> is
  recorded as the text \<^verbatim>\<open>true\<close>.
\<close>

theorem confirm_payment_counterexample:
  "payment_status (sample_order 1 ''COD'' ''COD'') \<noteq> Some ''Pending'' \<and>
   fst (dispatch_v2 test_env PostConfirmPaymentId \<lparr>body = [], params_id = ''1''\<rparr>
          (orders_ctx [sample_order 1 ''COD'' ''COD''])) =
     \<lparr>status = 200, json = Json (JObj [(''success'', JBool True)]), clearCookie = None\<rparr> \<and>
   map payment_status (orders (db (snd (dispatch_v2 test_env PostConfirmPaymentId
          \<lparr>body = [], params_id = ''1''\<rparr>
          (orders_ctx [sample_order 1 ''COD'' ''COD'']))))) = [Some ''Paid''] \<and>
   fst (dispatch_v2 test_env PostConfirmPaymentId \<lparr>body = [], params_id = ''abc''\<rparr>
          (orders_ctx [sample_order 1 ''COD'' ''COD''])) =
     \<lparr>status = 500, json = Json (JObj [(''error'', JStr ''Database error'')]), clearCookie = None\<rparr> \<and>
   map transaction_id (orders (db (snd (dispatch_v2 test_env PostConfirmPaymentId
          \<lparr>body = [(''transactionId'', JBool True)], params_id = ''1''\<rparr>
          (orders_ctx [sample_order 1 ''COD'' ''COD'']))))) = [Some ''true'']"
  by (simp add: dispatch_v2_def final_def confirm_payment_def handler_simps
      orders_ctx_def sample_order_def admin_ctx_def test_env_def decimal_def empty_db_def)

subsection \<open>Listing the orders\<close>








subsection \<open>Creating a pizza\<close>

lemma post_pizzas_status:
  "status (fst (post_pizzas E req c)) =
     (if \<not> truthy (getprop (body req) ''name'') \<or> \<not> truthy (getprop (body req) ''price'') \<or>
         \<not> truthy (getprop (body req) ''image'')
      then 400
      else if store_accepts E (InsertPizza (getprop (body req) ''name'')
                (Number E (getprop (body req) ''price'')) (getprop (body req) ''image'')) c
      then 200 else 500)"
proof (cases "store_accepts E (InsertPizza (getprop (body req) ''name'')
                (Number E (getprop (body req) ''price'')) (getprop (body req) ''image'')) c")
  case True
  from pool_query_accepts [OF True] show ?thesis
    using True by (auto simp add: post_pizzas_def Let_def res_json_def res_status_json_def)
next
  case False
  from pool_query_refuses [OF False] show ?thesis
    using False by (auto simp add: post_pizzas_def Let_def res_json_def res_status_json_def)
qed

lemma post_pizzas_missing:
  "\<not> truthy (getprop (body req) ''name'') \<or> \<not> truthy (getprop (body req) ''price'') \<or>
   \<not> truthy (getprop (body req) ''image'') \<Longrightarrow>
   post_pizzas E req c = (res_status_json 400 (Json (JObj [(''error'', JStr ''Missing fields'')])), c)"
  by (auto simp add: post_pizzas_def Let_def)

lemma denied:
  "\<not> is_admin c \<Longrightarrow>
   run_chain [adminAuth, final h] E req c =
     (res_status_json 401 (Json (JObj [(''error'', JStr ''Unauthorized'')])),
      c\<lparr>trace := trace c @ [Guard]\<rparr>)"
  by (auto simp add: adminAuth_def is_admin_def Let_def split: option.splits)

text \<open>
  C8, as amended. \<^verbatim>\<open>POST /api/pizzas\<close> without the administrator's session answers 401
  after the guard alone has run, whatever the body. With the administrator's session, a
  body that lacks \<open>name\<close>, \<open>price\<close> or \<open>image\<close> gets 400 before any statement is sent, and
  the answer is 400 exactly when one of the three is falsy; so a request whose three
  fields are all truthy never gets 400.
\<close>

theorem post_pizzas_guard_then_validation:
  "(\<not> is_admin c \<longrightarrow>
      status (fst (dispatch E PostPizzas req c)) = 401 \<and>
      events c (snd (dispatch E PostPizzas req c)) = [Guard]) \<and>
   (is_admin c \<and>
    (getprop (body req) ''name'' = JUndefined \<or> getprop (body req) ''price'' = JUndefined \<or>
     getprop (body req) ''image'' = JUndefined) \<longrightarrow>
      fst (dispatch E PostPizzas req c) =
        \<lparr>status = 400, json = Json (JObj [(''error'', JStr ''Missing fields'')]),
         clearCookie = None\<rparr> \<and>
      events c (snd (dispatch E PostPizzas req c)) = [Guard]) \<and>
   (is_admin c \<longrightarrow>
      (status (fst (dispatch E PostPizzas req c)) = 400) =
        (\<not> truthy (getprop (body req) ''name'') \<or> \<not> truthy (getprop (body req) ''price'') \<or>
         \<not> truthy (getprop (body req) ''image'')))"
proof -
  have visitor: "status (fst (dispatch E PostPizzas req c)) = 401 \<and>
             events c (snd (dispatch E PostPizzas req c)) = [Guard]" if "\<not> is_admin c"
    using that
    by (simp add: dispatch_def denied res_status_json_def events_def del: run_chain.simps)
  have missing: "fst (dispatch E PostPizzas req c) =
          \<lparr>status = 400, json = Json (JObj [(''error'', JStr ''Missing fields'')]),
           clearCookie = None\<rparr> \<and>
        events c (snd (dispatch E PostPizzas req c)) = [Guard]"
    if a: "is_admin c \<and>
      (getprop (body req) ''name'' = JUndefined \<or> getprop (body req) ''price'' = JUndefined \<or>
       getprop (body req) ''image'' = JUndefined)"
  proof -
    from a have "\<not> truthy (getprop (body req) ''name'') \<or>
                 \<not> truthy (getprop (body req) ''price'') \<or>
                 \<not> truthy (getprop (body req) ''image'')"
      by auto
    from post_pizzas_missing [OF this, of E "c\<lparr>trace := trace c @ [Guard]\<rparr>"] a
    show ?thesis
      by (simp add: dispatch_def guarded_as_admin res_status_json_def events_def
          del: run_chain.simps)
  qed
  have exact: "(status (fst (dispatch E PostPizzas req c)) = 400) =
        (\<not> truthy (getprop (body req) ''name'') \<or> \<not> truthy (getprop (body req) ''price'') \<or>
         \<not> truthy (getprop (body req) ''image''))" if "is_admin c"
    using that
    by (simp add: dispatch_def guarded_as_admin post_pizzas_status del: run_chain.simps)
  from visitor missing exact show ?thesis by blast
qed

text \<open>A body without \<open>image\<close> from a visitor and from the administrator, and a full body.\<close>

theorem post_pizzas_guard_then_validation_witness:
  "\<not> is_admin visitor_ctx \<and>
   status (fst (dispatch test_env PostPizzas
      \<lparr>body = [(''name'', JStr ''Margherita''), (''price'', JNum (Fin 9))], params_id = ''''\<rparr>
      visitor_ctx)) = 401 \<and>
   is_admin admin_ctx \<and>
   getprop (body \<lparr>body = [(''name'', JStr ''Margherita''), (''price'', JNum (Fin 9))],
                  params_id = ''''\<rparr>) ''image'' = JUndefined \<and>
   status (fst (dispatch test_env PostPizzas
      \<lparr>body = [(''name'', JStr ''Margherita''), (''price'', JNum (Fin 9))], params_id = ''''\<rparr>
      admin_ctx)) = 400 \<and>
   status (fst (dispatch test_env PostPizzas
      \<lparr>body = [(''name'', JStr ''Margherita''), (''price'', JNum (Fin 9)),
               (''image'', JStr ''m.png'')], params_id = ''''\<rparr>
      admin_ctx)) \<noteq> 400"
proof -
  let ?short = "\<lparr>body = [(''name'', JStr ''Margherita''), (''price'', JNum (Fin 9))],
                 params_id = ''''\<rparr>"
  let ?full = "\<lparr>body = [(''name'', JStr ''Margherita''), (''price'', JNum (Fin 9)),
               (''image'', JStr ''m.png'')], params_id = ''''\<rparr>"
  have who: "\<not> is_admin visitor_ctx \<and> is_admin admin_ctx"
    by (simp add: is_admin_def visitor_ctx_def admin_ctx_def new_session_def)
  have miss: "getprop (body ?short) ''image'' = JUndefined"
    by (simp add: getprop_def)
  have full: "truthy (getprop (body ?full) ''name'') \<and> truthy (getprop (body ?full) ''price'') \<and>
              truthy (getprop (body ?full) ''image'')"
    by (simp add: getprop_def)
  from post_pizzas_guard_then_validation [of visitor_ctx test_env ?short]
       post_pizzas_guard_then_validation [of admin_ctx test_env ?short]
       post_pizzas_guard_then_validation [of admin_ctx test_env ?full]
       who miss full
  show ?thesis by simp
qed

text \<open>
  C8 as stated fails in its last part: with all three fields present and the price 0, the
  administrator gets 400.
\<close>

theorem post_pizzas_zero_price_counterexample:
  "getprop [(''name'', JStr ''Margherita''), (''price'', JNum (Fin 0)), (''image'', JStr ''m.png'')]
     ''name'' \<noteq> JUndefined \<and>
   getprop [(''name'', JStr ''Margherita''), (''price'', JNum (Fin 0)), (''image'', JStr ''m.png'')]
     ''price'' \<noteq> JUndefined \<and>
   getprop [(''name'', JStr ''Margherita''), (''price'', JNum (Fin 0)), (''image'', JStr ''m.png'')]
     ''image'' \<noteq> JUndefined \<and>
   fst (dispatch test_env PostPizzas
      \<lparr>body = [(''name'', JStr ''Margherita''), (''price'', JNum (Fin 0)),
               (''image'', JStr ''m.png'')], params_id = ''''\<rparr> admin_ctx) =
     \<lparr>status = 400, json = Json (JObj [(''error'', JStr ''Missing fields'')]), clearCookie = None\<rparr>"
  by (simp add: dispatch_def adminAuth_def final_def post_pizzas_def handler_simps admin_ctx_def)

subsection \<open>Updating an order\<close>

text \<open>
  C10, as amended. For the administrator's \<^verbatim>\<open>PATCH /api/orders/:id\<close>: when the store
  refuses the statement (the store is down, the id is not an integer, the text of the
  new status does not fit the column of 20 characters) the answer is 500 and nothing
  changes. Otherwise the answer is a success and the orders are the old ones with the
  \<open>payment_status\<close> of each row of that id set to the text that the driver sends for the
  \<^verbatim>\<open>payment_status\<close> of the body, which for a string of at most 20 characters is that
  string; the other columns of that row, the other orders, the other tables and the
  sequence are as before. The session is as before in every case. Nothing depends on
  the old status, and the new one is checked against no enumeration.
\<close>

theorem patch_orders_frame:
  assumes "is_admin c"
  shows "(pg_fails E (UpdatePaymentStatus (getprop (body req) ''payment_status'') (params_id req)) \<or>
          pg_int4 E (params_id req) = None \<or>
          nullable (pg_varchar 20) (pg_prepare E (getprop (body req) ''payment_status'')) = None \<longrightarrow>
            fst (dispatch E PatchOrdersId req c) =
              res_status_json 500 (Json (JObj [(''success'', JBool False)])) \<and>
            db (snd (dispatch E PatchOrdersId req c)) = db c) \<and>
         (\<forall>k t. \<not> pg_fails E
                    (UpdatePaymentStatus (getprop (body req) ''payment_status'') (params_id req)) \<and>
                pg_int4 E (params_id req) = Some k \<and>
                nullable (pg_varchar 20) (pg_prepare E (getprop (body req) ''payment_status'')) =
                  Some t \<longrightarrow>
            fst (dispatch E PatchOrdersId req c) =
              res_json (Json (JObj [(''success'', JBool True)])) \<and>
            orders (db (snd (dispatch E PatchOrdersId req c))) =
              map (\<lambda>row. if order_id row = k then row\<lparr>payment_status := t\<rparr> else row)
                  (orders (db c)) \<and>
            pizzas (db (snd (dispatch E PatchOrdersId req c))) = pizzas (db c) \<and>
            messages (db (snd (dispatch E PatchOrdersId req c))) = messages (db c) \<and>
            orders_id_seq (db (snd (dispatch E PatchOrdersId req c))) = orders_id_seq (db c)) \<and>
         session (snd (dispatch E PatchOrdersId req c)) = session c \<and>
         (\<forall>s. getprop (body req) ''payment_status'' = JStr s \<and> length s \<le> 20 \<and>
              CHR 0x00 \<notin> set s \<longrightarrow>
            nullable (pg_varchar 20) (pg_prepare E (getprop (body req) ''payment_status'')) =
              Some (Some s))"
proof -
  let ?v = "getprop (body req) ''payment_status''"
  let ?q = "UpdatePaymentStatus ?v (params_id req)"
  let ?c = "c\<lparr>trace := trace c @ [Guard]\<rparr>"
  let ?R = "dispatch E PatchOrdersId req c"
  have run: "?R =
      (case pool_query E ?q ?c of
         (Some r, c') \<Rightarrow> (res_json (Json (JObj [(''success'', JBool True)])), c')
       | (None, c') \<Rightarrow> (res_status_json 500 (Json (JObj [(''success'', JBool False)])), c'))"
    using assms
    by (simp add: dispatch_def guarded_as_admin patch_orders_def Let_def del: run_chain.simps)
  have refused: "fst ?R = res_status_json 500 (Json (JObj [(''success'', JBool False)])) \<and>
                 db (snd ?R) = db c"
    if "pg_fails E ?q \<or> pg_int4 E (params_id req) = None \<or>
        nullable (pg_varchar 20) (pg_prepare E ?v) = None"
  proof -
    from that have "\<not> store_accepts E ?q ?c"
      by (auto simp add: store_accepts_def split: Option.bind_splits)
    from pool_query_refuses [OF this] show ?thesis unfolding run by simp
  qed
  have accepted: "fst ?R = res_json (Json (JObj [(''success'', JBool True)])) \<and>
            orders (db (snd ?R)) =
              map (\<lambda>row. if order_id row = k then row\<lparr>payment_status := t\<rparr> else row)
                  (orders (db c)) \<and>
            pizzas (db (snd ?R)) = pizzas (db c) \<and>
            messages (db (snd ?R)) = messages (db c) \<and>
            orders_id_seq (db (snd ?R)) = orders_id_seq (db c)"
    if "\<not> pg_fails E ?q \<and> pg_int4 E (params_id req) = Some k \<and>
        nullable (pg_varchar 20) (pg_prepare E ?v) = Some t" for k t
    unfolding run using that by (simp add: pool_query_def Let_def)
  have sess: "session (snd ?R) = session c"
    unfolding run
    by (cases "store_accepts E ?q ?c")
       (auto dest: pool_query_accepts simp add: pool_query_refuses)
  have fits: "nullable (pg_varchar 20) (pg_prepare E ?v) = Some (Some s)"
    if "?v = JStr s \<and> length s \<le> 20 \<and> CHR 0x00 \<notin> set s" for s
    using that by (simp add: pg_varchar_def)
  from refused accepted sess fits show ?thesis by blast
qed

text \<open>
  A paid order set back to \<^verbatim>\<open>"Pending"\<close>, an order given a status outside the enumeration
  (the other order is untouched each time), and an id that is not an integer.
\<close>

theorem patch_orders_frame_witness:
  "is_admin (orders_ctx [sample_order 1 ''Online'' ''Paid'', sample_order 2 ''COD'' ''Paid'']) \<and>
   orders (db (snd (dispatch test_env PatchOrdersId
       \<lparr>body = [(''payment_status'', JStr ''Pending'')], params_id = ''1''\<rparr>
       (orders_ctx [sample_order 1 ''Online'' ''Paid'', sample_order 2 ''COD'' ''Paid''])))) =
     [sample_order 1 ''Online'' ''Pending'', sample_order 2 ''COD'' ''Paid''] \<and>
   orders (db (snd (dispatch test_env PatchOrdersId
       \<lparr>body = [(''payment_status'', JStr ''Refunded, see ticket'')], params_id = ''2''\<rparr>
       (orders_ctx [sample_order 1 ''Online'' ''Paid'', sample_order 2 ''COD'' ''Paid''])))) =
     [sample_order 1 ''Online'' ''Paid'', sample_order 2 ''COD'' ''Refunded, see ticket''] \<and>
   fst (dispatch test_env PatchOrdersId
       \<lparr>body = [(''payment_status'', JStr ''Pending'')], params_id = ''x''\<rparr>
       (orders_ctx [sample_order 1 ''Online'' ''Paid'', sample_order 2 ''COD'' ''Paid''])) =
     \<lparr>status = 500, json = Json (JObj [(''success'', JBool False)]), clearCookie = None\<rparr>"
proof -
  let ?c = "orders_ctx [sample_order 1 ''Online'' ''Paid'', sample_order 2 ''COD'' ''Paid'']"
  let ?r1 = "\<lparr>body = [(''payment_status'', JStr ''Pending'')], params_id = ''1''\<rparr>"
  let ?r2 = "\<lparr>body = [(''payment_status'', JStr ''Refunded, see ticket'')], params_id = ''2''\<rparr>"
  let ?rx = "\<lparr>body = [(''payment_status'', JStr ''Pending'')], params_id = ''x''\<rparr>"
  have adm: "is_admin ?c"
    by (simp add: is_admin_def orders_ctx_def admin_ctx_def)
  have e1: "\<not> pg_fails test_env (UpdatePaymentStatus (getprop (body ?r1) ''payment_status'')
              (params_id ?r1)) \<and>
            pg_int4 test_env (params_id ?r1) = Some 1 \<and>
            nullable (pg_varchar 20) (pg_prepare test_env (getprop (body ?r1) ''payment_status''))
              = Some (Some ''Pending'')"
    by (simp add: test_env_def decimal_def getprop_def pg_varchar_def)
  have e2: "\<not> pg_fails test_env (UpdatePaymentStatus (getprop (body ?r2) ''payment_status'')
              (params_id ?r2)) \<and>
            pg_int4 test_env (params_id ?r2) = Some 2 \<and>
            nullable (pg_varchar 20) (pg_prepare test_env (getprop (body ?r2) ''payment_status''))
              = Some (Some ''Refunded, see ticket'')"
    by (simp add: test_env_def decimal_def getprop_def pg_varchar_def)
  have ex: "pg_int4 test_env (params_id ?rx) = None"
    by (simp add: test_env_def decimal_def)
  from patch_orders_frame [OF adm, of test_env ?r1] patch_orders_frame [OF adm, of test_env ?r2]
       patch_orders_frame [OF adm, of test_env ?rx] adm e1 e2 ex
  show ?thesis
    by (simp add: orders_ctx_def sample_order_def res_status_json_def)
qed

text \<open>
  C10 as stated fails in its last part: a status of 21 characters is refused with 500
  and the order keeps its status, and the status \<^verbatim>\<open>true\<close> is stored as the text \<^verbatim>\<open>true\<close>.
\<close>

theorem patch_orders_value_counterexample:
  "length ''Refunded, see tickets'' = 21 \<and>
   fst (dispatch test_env PatchOrdersId
       \<lparr>body = [(''payment_status'', JStr ''Refunded, see tickets'')], params_id = ''1''\<rparr>
       (orders_ctx [sample_order 1 ''Online'' ''Paid''])) =
     \<lparr>status = 500, json = Json (JObj [(''success'', JBool False)]), clearCookie = None\<rparr> \<and>
   orders (db (snd (dispatch test_env PatchOrdersId
       \<lparr>body = [(''payment_status'', JStr ''Refunded, see tickets'')], params_id = ''1''\<rparr>
       (orders_ctx [sample_order 1 ''Online'' ''Paid''])))) = [sample_order 1 ''Online'' ''Paid''] \<and>
   map payment_status (orders (db (snd (dispatch test_env PatchOrdersId
       \<lparr>body = [(''payment_status'', JBool True)], params_id = ''1''\<rparr>
       (orders_ctx [sample_order 1 ''Online'' ''Paid'']))))) = [Some ''true'']"
  by (simp add: dispatch_def adminAuth_def final_def patch_orders_def handler_simps
      orders_ctx_def sample_order_def admin_ctx_def test_env_def decimal_def empty_db_def)

end
